theory Spec2Isabelle
  imports Complex_Main
begin

section \<open>The treemap aggregation of \<open>TreemapChart.tsx\<close>\<close>

text \<open>
  The development embeds the body of the \<open>useMemo\<close> callback that computes
  \<open>treemapData\<close> (lines 38 to 127 of \<open>src/frontend/components/TreemapChart.tsx\<close>).

  Conventions of the embedding:
  \<^item> JavaScript numbers are modelled as reals. Rounding, infinities and a \<open>NaN\<close> held by
    a cell are not modelled; the \<open>NaN\<close> that the code itself can compute is.
  \<^item> Strings are \<open>string\<close>; only equality of strings and the shape of decimal numerals
    matter below.
  \<^item> A plain object used as a dictionary (\<open>aggregated\<close>, \<open>groups\<close>, \<open>groups[g]\<close>) is the
    list of its own properties in creation order. Reading a property that is not an own
    property continues in \<open>Object.prototype\<close>, as it does in JavaScript.
  \<^item> The file is an ECMAScript module, hence strict mode code: an assignment that cannot
    be carried out throws \<open>TypeError\<close>.
  \<^item> A call starts in a fresh standard realm (ECMAScript 2024): \<open>Object.prototype\<close>,
    \<open>Function.prototype\<close>, \<open>String.prototype\<close> and the built-in functions have their
    standard properties and no others. What the call itself writes to these objects is
    part of its state.
  \<^item> Cell values that are objects are ordinary objects of that realm.
\<close>

subsection \<open>Cell values and records\<close>

text \<open>
  What \<open>record.getCellValue(field)\<close> can return, as far as the code inspects it:
  \<open>null\<close> (or \<open>undefined\<close>), a number, a string, a boolean, or an object. Of an object the
  code reads only the properties \<open>name\<close> and \<open>color\<close>: \<open>objName\<close> and \<open>objColor\<close> are
  its own properties of these names (strings, as in the cells of a select field), \<open>None\<close>
  when it has no such own property; an array is an object with neither.
\<close>

datatype cell =
    CNull
  | CNum real
  | CStr string
  | CBool bool
  | CObj (objName: "string option") (objColor: "string option")

text \<open>
  A field is known by its id; a field selection that is unset is \<open>None\<close>. A record
  answers the two queries the code makes of it.
\<close>

type_synonym field = string

record tableRecord =
  getCellValue :: "field \<Rightarrow> cell"
  getCellValueAsString :: "field \<Rightarrow> string"

text \<open>Truthiness of a cell value (\<open>groupValue && ...\<close>, line 59).\<close>

fun truthyCell :: "cell \<Rightarrow> bool" where
  "truthyCell CNull = False"
| "truthyCell (CNum x) = (x \<noteq> 0)"
| "truthyCell (CStr s) = (s \<noteq> [])"
| "truthyCell (CBool b) = b"
| "truthyCell (CObj n c) = True"

text \<open>\<open>typeof v === "object"\<close>; it is true of \<open>null\<close> as well.\<close>

fun typeofObject :: "cell \<Rightarrow> bool" where
  "typeofObject CNull = True"
| "typeofObject (CObj n c) = True"
| "typeofObject v = False"

subsection \<open>What one record contributes (lines 50 to 52 and 109 to 111)\<close>

definition recordLabel :: "field \<Rightarrow> tableRecord \<Rightarrow> string" where
  "recordLabel labelField r =
     (let s = getCellValueAsString r labelField in if s \<noteq> [] then s else ''Unnamed'')"

definition recordValue :: "field \<Rightarrow> tableRecord \<Rightarrow> real" where
  "recordValue valueField r =
     (case getCellValue r valueField of CNum x \<Rightarrow> x | _ \<Rightarrow> 0)"

subsection \<open>Plain objects as dictionaries\<close>

text \<open>
  The string-keyed properties of \<open>Object.prototype\<close>. Eleven hold built-in functions;
  \<open>__proto__\<close> is an accessor whose getter returns the prototype of the object it is
  read from, which for an object literal is \<open>Object.prototype\<close> itself.
\<close>

definition prototypeFunctions :: "string list" where
  "prototypeFunctions =
     [''constructor'', ''hasOwnProperty'', ''isPrototypeOf'', ''propertyIsEnumerable'',
      ''toLocaleString'', ''toString'', ''valueOf'', ''__defineGetter__'',
      ''__defineSetter__'', ''__lookupGetter__'', ''__lookupSetter__'']"

definition inheritedName :: "string \<Rightarrow> bool" where
  "inheritedName k = (k = ''__proto__'' \<or> k \<in> set prototypeFunctions)"

text \<open>
  The result of reading \<open>obj[k]\<close> on an object literal: an own property, else a built-in
  function of \<open>Object.prototype\<close>, else \<open>Object.prototype\<close> (for \<open>__proto__\<close>), else
  nothing. \<open>Undefined\<close> stands for every falsy result of a property that is not an own
  property.
\<close>

datatype 'a slot = Own 'a | BuiltinFunction string | ObjectPrototype | Undefined

definition getProp :: "(string \<times> 'a) list \<Rightarrow> string \<Rightarrow> 'a slot" where
  "getProp obj k =
     (case map_of obj k of
        Some v \<Rightarrow> Own v
      | None \<Rightarrow>
          if k = ''__proto__'' then ObjectPrototype
          else if k \<in> set prototypeFunctions then BuiltinFunction k
          else Undefined)"

text \<open>
  Writing an own data property: an existing one keeps its place in the creation order,
  a new one goes last.
\<close>

fun putOwn :: "string \<Rightarrow> 'a \<Rightarrow> (string \<times> 'a) list \<Rightarrow> (string \<times> 'a) list" where
  "putOwn k v [] = [(k, v)]"
| "putOwn k v ((k', v') # kvs) =
     (if k' = k then (k', v) # kvs else (k', v') # putOwn k v kvs)"

text \<open>
  \<open>Object.entries\<close> lists own properties in the order of \<open>OrdinaryOwnPropertyKeys\<close>:
  the keys that are array indices (canonical decimal numerals below \<open>2\<^sup>3\<^sup>2 - 1\<close>) first,
  in ascending numeric order, then the other keys in creation order.
\<close>

definition digitOf :: "char \<Rightarrow> nat option" where
  "digitOf c =
     map_of [(CHR ''0'', 0), (CHR ''1'', 1), (CHR ''2'', 2), (CHR ''3'', 3), (CHR ''4'', 4),
             (CHR ''5'', 5), (CHR ''6'', 6), (CHR ''7'', 7), (CHR ''8'', 8), (CHR ''9'', 9)] c"

fun decimalValue :: "nat \<Rightarrow> string \<Rightarrow> nat option" where
  "decimalValue acc [] = Some acc"
| "decimalValue acc (c # cs) =
     (case digitOf c of None \<Rightarrow> None | Some d \<Rightarrow> decimalValue (10 * acc + d) cs)"

definition arrayIndex :: "string \<Rightarrow> nat option" where
  "arrayIndex s =
     (case s of
        [] \<Rightarrow> None
      | c # cs \<Rightarrow>
          if c = CHR ''0'' \<and> cs \<noteq> [] then None
          else (case decimalValue 0 s of
                  Some n \<Rightarrow> if n < 4294967295 then Some n else None
                | None \<Rightarrow> None))"

definition isIndex :: "string \<Rightarrow> bool" where
  "isIndex k = (arrayIndex k \<noteq> None)"

definition entries :: "(string \<times> 'a) list \<Rightarrow> (string \<times> 'a) list" where
  "entries obj =
     sort_key (\<lambda>kv. the (arrayIndex (fst kv))) (filter (\<lambda>kv. isIndex (fst kv)) obj)
     @ filter (\<lambda>kv. \<not> isIndex (fst kv)) obj"

subsection \<open>Values of \<open>aggregated\<close>\<close>

text \<open>
  \<open>aggregated\<close> is typed \<open>Record<string, number>\<close>, but \<open>+=\<close> on an inherited function
  or object concatenates strings. A string is kept as the list of the pieces it was
  concatenated from: the source text of a built-in function, \<open>[object Object]\<close>, the
  decimal rendering of a number. Each piece renders as a non-empty text.
\<close>

datatype piece = FnSource string | ObjectTag | Dec real

datatype jsval = Num real | NaN | Str "piece list"

fun truthy :: "jsval slot \<Rightarrow> bool" where
  "truthy (Own (Num x)) = (x \<noteq> 0)"
| "truthy (Own NaN) = False"
| "truthy (Own (Str ps)) = (ps \<noteq> [])"
| "truthy (BuiltinFunction f) = True"
| "truthy ObjectPrototype = True"
| "truthy Undefined = False"

text \<open>\<open>x + m\<close> for a number \<open>m\<close> and the result \<open>x\<close> of a property read.\<close>

fun plusNumber :: "jsval slot \<Rightarrow> real \<Rightarrow> jsval" where
  "plusNumber (Own (Num x)) m = Num (x + m)"
| "plusNumber (Own NaN) m = NaN"
| "plusNumber (Own (Str ps)) m = Str (ps @ [Dec m])"
| "plusNumber (BuiltinFunction f) m = Str [FnSource f, Dec m]"
| "plusNumber ObjectPrototype m = Str [ObjectTag, Dec m]"
| "plusNumber Undefined m = NaN"

text \<open>
  \<open>obj[k] = v\<close> for a primitive \<open>v\<close>: the setter of \<open>__proto__\<close> ignores a value that is
  neither an object nor \<open>null\<close>; every other key becomes or stays an own property (the
  inherited properties are writable data properties).
\<close>

definition assignPrimitive ::
  "(string \<times> jsval) list \<Rightarrow> string \<Rightarrow> jsval \<Rightarrow> (string \<times> jsval) list" where
  "assignPrimitive obj k v = (if k = ''__proto__'' then obj else putOwn k v obj)"

subsection \<open>The tree\<close>

text \<open>
  An entry of lines 82 to 84, \<open>{ value, color }\<close>: its value is a number and its colour a
  string or absent.
\<close>

record itemData =
  itemValue :: real
  itemColor :: "string option"

type_synonym items = "(string \<times> itemData) list"

text \<open>
  The colour of a node is typed \<open>string\<close>; line 98 can also read an entry object there
  (see \<open>groupNode\<close>).
\<close>

datatype colour = Hex string | EntryObject itemData

datatype node =
  Node (node_id: string) (node_value: "jsval option") (node_color: "colour option")
       (node_children: "node list option")

subsection \<open>Without a group field (lines 107 to 126)\<close>

definition addRecord ::
  "field \<Rightarrow> field \<Rightarrow> tableRecord \<Rightarrow> (string \<times> jsval) list \<Rightarrow> (string \<times> jsval) list" where
  "addRecord labelField valueField r aggregated =
     (let label = recordLabel labelField r;
          v = recordValue valueField r;
          aggregated1 =
            (if \<not> truthy (getProp aggregated label)
             then assignPrimitive aggregated label (Num 0) else aggregated)
      in assignPrimitive aggregated1 label
           (plusNumber (getProp aggregated1 label) (max v 0)))"

definition leafNode :: "string \<times> jsval \<Rightarrow> node" where
  "leafNode kv = Node (fst kv) (Some (snd kv)) None None"

subsection \<open>The built-in objects that the loop with a group field can reach\<close>

text \<open>
  \<open>groups[groupName]\<close> and \<open>groups[groupName][label]\<close> are read through the prototype
  chain, so lines 82 and 84 can write to objects other than \<open>groups\<close> and its groups: to
  \<open>Object.prototype\<close>, to its eleven functions, to \<open>Function.prototype\<close>, and to the
  entries that line 82 has added to \<open>Object.prototype\<close>. The state of a run holds what
  the run has written there.

  What \<open>x.value += m\<close> leaves in \<open>x.value\<close> when it is not a number: \<open>NaN\<close>, or the text
  \<open>[object Object]\<close> followed by the decimal renderings of the numbers added since.
\<close>

datatype prim = PNaN | PText "real list"

text \<open>
  An entry that line 82 has stored on \<open>Object.prototype\<close>. Later records can take it for
  a group and give it further properties (\<open>heldItems\<close>), replace its \<open>value\<close> or \<open>color\<close>
  by an entry when they are falsy, or turn its \<open>value\<close> into a text.
\<close>

datatype held = HeldNumber real | HeldItem itemData | HeldText "real list"

record entry =
  heldValue :: held
  heldColor :: "colour option"
  heldItems :: items

text \<open>A property added to \<open>Object.prototype\<close>, and one added to a built-in function.\<close>

datatype added = AddedEntry entry | AddedPrim prim

datatype fprop = FItem itemData | FPrim prim

record realm =
  objectPrototype :: "(string \<times> added) list"
  functionProps :: "(string \<times> (string \<times> fprop) list) list"
  functionPrototypeValue :: "prim option"

definition freshRealm :: realm where
  "freshRealm = \<lparr>objectPrototype = [], functionProps = [], functionPrototypeValue = None\<rparr>"

definition propsOf :: "realm \<Rightarrow> string \<Rightarrow> (string \<times> fprop) list" where
  "propsOf R f = (case map_of (functionProps R) f of Some ps \<Rightarrow> ps | None \<Rightarrow> [])"

text \<open>
  The own string-keyed properties of the built-in objects, besides those of
  \<open>Object.prototype\<close>: the static methods of \<open>Object\<close>, the methods of
  \<open>Function.prototype\<close> (its \<open>arguments\<close> and \<open>caller\<close> are accessors that throw), and
  the properties of \<open>String.prototype\<close>. All of them hold functions; line 84 can give
  such a function a property \<open>value\<close>, which no later read of the loop depends on, so
  the state does not hold it.
\<close>

definition objectStatics :: "string list" where
  "objectStatics =
     [''assign'', ''create'', ''defineProperties'', ''defineProperty'', ''entries'', ''freeze'',
      ''fromEntries'', ''getOwnPropertyDescriptor'', ''getOwnPropertyDescriptors'',
      ''getOwnPropertyNames'', ''getOwnPropertySymbols'', ''getPrototypeOf'', ''groupBy'',
      ''hasOwn'', ''is'', ''isExtensible'', ''isFrozen'', ''isSealed'', ''keys'',
      ''preventExtensions'', ''seal'', ''setPrototypeOf'', ''values'']"

definition functionPrototypeMethods :: "string list" where
  "functionPrototypeMethods = [''apply'', ''bind'', ''call'', ''constructor'', ''toString'']"

definition stringPrototypeNames :: "string list" where
  "stringPrototypeNames =
     [''anchor'', ''at'', ''big'', ''blink'', ''bold'', ''charAt'', ''charCodeAt'',
      ''codePointAt'', ''concat'', ''constructor'', ''endsWith'', ''fixed'', ''fontcolor'',
      ''fontsize'', ''includes'', ''indexOf'', ''isWellFormed'', ''italics'', ''lastIndexOf'',
      ''link'', ''localeCompare'', ''match'', ''matchAll'', ''normalize'', ''padEnd'',
      ''padStart'', ''repeat'', ''replace'', ''replaceAll'', ''search'', ''slice'', ''small'',
      ''split'', ''startsWith'', ''strike'', ''sub'', ''substr'', ''substring'', ''sup'',
      ''toLocaleLowerCase'', ''toLocaleUpperCase'', ''toLowerCase'', ''toString'',
      ''toUpperCase'', ''toWellFormed'', ''trim'', ''trimEnd'', ''trimLeft'', ''trimRight'',
      ''trimStart'', ''valueOf'']"

text \<open>
  \<open>x + m\<close> for a number \<open>m\<close> when \<open>x\<close> is \<open>undefined\<close>, a \<open>prim\<close>, or an object (an object
  converts to \<open>[object Object]\<close>).
\<close>

datatype operand = OUndefined | OPrim prim | OObject

fun plusValue :: "operand \<Rightarrow> real \<Rightarrow> prim" where
  "plusValue OUndefined m = PNaN"
| "plusValue (OPrim PNaN) m = PNaN"
| "plusValue (OPrim (PText ms)) m = PText (ms @ [m])"
| "plusValue OObject m = PText [m]"

text \<open>
  What \<open>x.value\<close> reads when \<open>x\<close> is \<open>Object.prototype\<close>, \<open>Function.prototype\<close>, or one of
  the eleven functions (own property first, then the chain).
\<close>

definition valueOfPrototype :: "realm \<Rightarrow> operand" where
  "valueOfPrototype R =
     (case map_of (objectPrototype R) ''value'' of
        None \<Rightarrow> OUndefined
      | Some (AddedPrim p) \<Rightarrow> OPrim p
      | Some (AddedEntry e) \<Rightarrow> OObject)"

definition valueOfFunctionPrototype :: "realm \<Rightarrow> operand" where
  "valueOfFunctionPrototype R =
     (case functionPrototypeValue R of Some p \<Rightarrow> OPrim p | None \<Rightarrow> valueOfPrototype R)"

definition valueOfFunction :: "realm \<Rightarrow> string \<Rightarrow> operand" where
  "valueOfFunction R f =
     (case map_of (propsOf R f) ''value'' of
        Some (FItem d) \<Rightarrow> OObject
      | Some (FPrim p) \<Rightarrow> OPrim p
      | None \<Rightarrow> valueOfFunctionPrototype R)"

text \<open>Line 84, \<open>x.value += m\<close>, for each kind of object \<open>x\<close>.\<close>

definition bumpItem :: "itemData \<Rightarrow> real \<Rightarrow> itemData" where
  "bumpItem d m = d\<lparr>itemValue := itemValue d + m\<rparr>"

definition bumpEntry :: "entry \<Rightarrow> real \<Rightarrow> entry" where
  "bumpEntry e m =
     e\<lparr>heldValue :=
         (case heldValue e of
            HeldNumber n \<Rightarrow> HeldNumber (n + m)
          | HeldItem d \<Rightarrow> HeldText [m]
          | HeldText ms \<Rightarrow> HeldText (ms @ [m]))\<rparr>"

definition bumpPrototype :: "realm \<Rightarrow> real \<Rightarrow> realm" where
  "bumpPrototype R m =
     R\<lparr>objectPrototype :=
         putOwn ''value'' (AddedPrim (plusValue (valueOfPrototype R) m)) (objectPrototype R)\<rparr>"

definition bumpFunctionPrototype :: "realm \<Rightarrow> real \<Rightarrow> realm" where
  "bumpFunctionPrototype R m =
     R\<lparr>functionPrototypeValue := Some (plusValue (valueOfFunctionPrototype R) m)\<rparr>"

definition setFunctionProp :: "realm \<Rightarrow> string \<Rightarrow> string \<Rightarrow> fprop \<Rightarrow> realm" where
  "setFunctionProp R f k p =
     R\<lparr>functionProps := putOwn f (putOwn k p (propsOf R f)) (functionProps R)\<rparr>"

definition bumpFunction :: "realm \<Rightarrow> string \<Rightarrow> real \<Rightarrow> realm" where
  "bumpFunction R f m = setFunctionProp R f ''value'' (FPrim (plusValue (valueOfFunction R f) m))"

definition setAdded :: "realm \<Rightarrow> string \<Rightarrow> added \<Rightarrow> realm" where
  "setAdded R k a = R\<lparr>objectPrototype := putOwn k a (objectPrototype R)\<rparr>"

text \<open>
  What \<open>o[k]\<close> finds in \<open>Object.prototype\<close>, for an object \<open>o\<close> that has \<open>Object.prototype\<close>
  as its prototype and no own property \<open>k\<close>. \<open>FoundNothing\<close> is \<open>undefined\<close> or \<open>NaN\<close>:
  the check of line 81 fails and line 82 assigns. \<open>FoundText\<close> is a non-empty string.
\<close>

datatype found =
    FoundNothing
  | FoundFunction string
  | FoundPrototype
  | FoundEntry string entry
  | FoundText

definition viaPrototype :: "realm \<Rightarrow> string \<Rightarrow> found" where
  "viaPrototype R k =
     (if k = ''__proto__'' then FoundPrototype
      else if k \<in> set prototypeFunctions then FoundFunction k
      else (case map_of (objectPrototype R) k of
              None \<Rightarrow> FoundNothing
            | Some (AddedPrim PNaN) \<Rightarrow> FoundNothing
            | Some (AddedPrim (PText ms)) \<Rightarrow> FoundText
            | Some (AddedEntry e) \<Rightarrow> FoundEntry k e))"

text \<open>How a run of the loop can stop: the exception of strict mode code.\<close>

datatype stop = TypeError

text \<open>
  Line 84 on what line 81 has found truthy. Assigning \<open>.value\<close> on a string throws; on a
  function or an object it succeeds.
\<close>

fun touch :: "realm \<Rightarrow> found \<Rightarrow> real \<Rightarrow> stop + realm" where
  "touch R FoundNothing m = Inr R"
| "touch R (FoundFunction f) m = Inr (bumpFunction R f m)"
| "touch R FoundPrototype m = Inr (bumpPrototype R m)"
| "touch R (FoundEntry k e) m = Inr (setAdded R k (AddedEntry (bumpEntry e m)))"
| "touch R FoundText m = Inl TypeError"

subsection \<open>With a group field (lines 43 to 105)\<close>

text \<open>
  \<open>groupName\<close> and \<open>groupColor\<close> (lines 53 to 75). \<open>"name" in groupValue\<close> and
  \<open>"color" in groupValue\<close> look through the prototype chain, so they also find an entry
  that the run has stored on \<open>Object.prototype\<close> under that name (only the key \<open>value\<close>
  of \<open>Object.prototype\<close> ever holds a \<open>prim\<close>). Such an entry, used as a property key in
  \<open>groups[groupName]\<close>, is the key \<open>[object Object]\<close>. \<open>getHexForColor\<close> is the host's
  colour resolver, called with a string or with such an entry; \<open>?? undefined\<close> turns its
  \<open>null\<close> into no colour.
\<close>

datatype colorArg = ColorName string | ColorObject

definition inheritsEntry :: "realm \<Rightarrow> string \<Rightarrow> bool" where
  "inheritsEntry R k =
     (case map_of (objectPrototype R) k of Some (AddedEntry e) \<Rightarrow> True | _ \<Rightarrow> False)"

text \<open>\<open>"name" in v\<close>, asked of objects only.\<close>

fun hasName :: "realm \<Rightarrow> cell \<Rightarrow> bool" where
  "hasName R (CObj n c) = (n \<noteq> None \<or> inheritsEntry R ''name'')"
| "hasName R v = False"

definition groupOf ::
  "(colorArg \<Rightarrow> string option) \<Rightarrow> realm \<Rightarrow> cell \<Rightarrow> string \<times> string option" where
  "groupOf getHexForColor R groupValue =
     (if truthyCell groupValue \<and> typeofObject groupValue \<and> hasName R groupValue then
        ((case objName groupValue of Some n \<Rightarrow> n | None \<Rightarrow> ''[object Object]''),
         (case objColor groupValue of
            Some c \<Rightarrow> if c \<noteq> [] then getHexForColor (ColorName c) else None
          | None \<Rightarrow> if inheritsEntry R ''color'' then getHexForColor ColorObject else None))
      else (case groupValue of
              CStr s \<Rightarrow> (s, None)
            | _ \<Rightarrow> (''Ungrouped'', None)))"

text \<open>
  Lines 81 to 84 when \<open>groups[groupName]\<close> is an own property of \<open>groups\<close>, holding \<open>its\<close>.
  A label that is found through the prototype chain creates no property of the group;
  line 84 then writes to what was found.
\<close>

definition addItem ::
  "realm \<Rightarrow> items \<Rightarrow> string \<Rightarrow> string option \<Rightarrow> real \<Rightarrow> stop + items \<times> realm" where
  "addItem R its label groupColor v =
     (case map_of its label of
        Some d \<Rightarrow> Inr (putOwn label (bumpItem d (max v 0)) its, R)
      | None \<Rightarrow>
          (case viaPrototype R label of
             FoundNothing \<Rightarrow>
               Inr (putOwn label \<lparr>itemValue = 0 + max v 0, itemColor = groupColor\<rparr> its, R)
           | x \<Rightarrow> (case touch R x (max v 0) of Inl e \<Rightarrow> Inl e | Inr R' \<Rightarrow> Inr (its, R'))))"

text \<open>
  Lines 81 to 84 when \<open>groups[groupName]\<close> is \<open>Object.prototype\<close> (the group name is
  \<open>__proto__\<close>). \<open>Object.prototype.__proto__\<close> is \<open>null\<close>, and assigning an object to it
  throws, the prototype of \<open>Object.prototype\<close> being immutable.
\<close>

definition freshEntry :: "string option \<Rightarrow> real \<Rightarrow> entry" where
  "freshEntry groupColor v =
     \<lparr>heldValue = HeldNumber (0 + max v 0), heldColor = map_option Hex groupColor,
      heldItems = []\<rparr>"

definition addToPrototype :: "realm \<Rightarrow> string \<Rightarrow> string option \<Rightarrow> real \<Rightarrow> stop + realm" where
  "addToPrototype R label groupColor v =
     (if label = ''__proto__'' then Inl TypeError
      else if label \<in> set prototypeFunctions then Inr (bumpFunction R label (max v 0))
      else (case map_of (objectPrototype R) label of
              None \<Rightarrow> Inr (setAdded R label (AddedEntry (freshEntry groupColor v)))
            | Some (AddedPrim PNaN) \<Rightarrow> Inr (setAdded R label (AddedEntry (freshEntry groupColor v)))
            | Some (AddedPrim (PText ms)) \<Rightarrow> Inl TypeError
            | Some (AddedEntry e) \<Rightarrow> Inr (setAdded R label (AddedEntry (bumpEntry e (max v 0))))))"

text \<open>
  Lines 81 to 84 when \<open>groups[groupName]\<close> is the entry \<open>e\<close> that \<open>Object.prototype\<close> holds
  under the group name. Its own \<open>value\<close> and \<open>color\<close> come first: a number other than 0
  and a non-empty string are truthy primitives, on which line 84 throws.
\<close>

definition addToEntry ::
  "realm \<Rightarrow> string \<Rightarrow> entry \<Rightarrow> string \<Rightarrow> string option \<Rightarrow> real \<Rightarrow> stop + realm" where
  "addToEntry R groupName e label groupColor v =
     (let new = \<lparr>itemValue = 0 + max v 0, itemColor = groupColor\<rparr>;
          store = (\<lambda>e'. Inr (setAdded R groupName (AddedEntry e')))
      in if label = ''value'' then
           (case heldValue e of
              HeldNumber n \<Rightarrow>
                if n \<noteq> 0 then Inl TypeError else store (e\<lparr>heldValue := HeldItem new\<rparr>)
            | HeldItem d \<Rightarrow> store (e\<lparr>heldValue := HeldItem (bumpItem d (max v 0))\<rparr>)
            | HeldText ms \<Rightarrow> Inl TypeError)
         else if label = ''color'' then
           (case heldColor e of
              None \<Rightarrow> store (e\<lparr>heldColor := Some (EntryObject new)\<rparr>)
            | Some (Hex s) \<Rightarrow>
                if s \<noteq> [] then Inl TypeError else store (e\<lparr>heldColor := Some (EntryObject new)\<rparr>)
            | Some (EntryObject d) \<Rightarrow>
                store (e\<lparr>heldColor := Some (EntryObject (bumpItem d (max v 0)))\<rparr>))
         else
           (case map_of (heldItems e) label of
              Some d \<Rightarrow> store (e\<lparr>heldItems := putOwn label (bumpItem d (max v 0)) (heldItems e)\<rparr>)
            | None \<Rightarrow>
                (case viaPrototype R label of
                   FoundNothing \<Rightarrow> store (e\<lparr>heldItems := putOwn label new (heldItems e)\<rparr>)
                 | x \<Rightarrow> touch R x (max v 0))))"

text \<open>
  Lines 81 to 84 when \<open>groups[groupName]\<close> is the built-in function that
  \<open>Object.prototype\<close> holds under the group name \<open>f\<close> (\<open>Object\<close> itself for \<open>constructor\<close>).
  Its own \<open>name\<close> and \<open>length\<close> are primitive and not writable: line 84 assigns to a
  property of a string or of a number, or line 82 assigns to \<open>length\<close> when it is 0, and
  either assignment throws. \<open>Object.prototype\<close> is \<open>Object.prototype\<close>; the static methods
  of \<open>Object\<close> and the methods of \<open>Function.prototype\<close> are functions; reading
  \<open>arguments\<close> or \<open>caller\<close> throws; \<open>__proto__\<close> is \<open>Function.prototype\<close>.
\<close>

definition addToFunction ::
  "realm \<Rightarrow> string \<Rightarrow> string \<Rightarrow> string option \<Rightarrow> real \<Rightarrow> stop + realm" where
  "addToFunction R f label groupColor v =
     (let new = FItem \<lparr>itemValue = 0 + max v 0, itemColor = groupColor\<rparr>
      in if label = ''name'' \<or> label = ''length'' then Inl TypeError
         else if f = ''constructor'' \<and> label = ''prototype'' then Inr (bumpPrototype R (max v 0))
         else if f = ''constructor'' \<and> label \<in> set objectStatics then Inr R
         else
           (case map_of (propsOf R f) label of
              Some (FItem d) \<Rightarrow> Inr (setFunctionProp R f label (FItem (bumpItem d (max v 0))))
            | Some (FPrim PNaN) \<Rightarrow> Inr (setFunctionProp R f label new)
            | Some (FPrim (PText ms)) \<Rightarrow> Inl TypeError
            | None \<Rightarrow>
                if label = ''arguments'' \<or> label = ''caller'' then Inl TypeError
                else if label \<in> set functionPrototypeMethods then Inr R
                else if label = ''value'' \<and> functionPrototypeValue R \<noteq> None then
                  (case functionPrototypeValue R of
                     Some (PText ms) \<Rightarrow> Inl TypeError
                   | _ \<Rightarrow> Inr (setFunctionProp R f label new))
                else if label = ''__proto__'' then Inr (bumpFunctionPrototype R (max v 0))
                else
                  (case viaPrototype R label of
                     FoundNothing \<Rightarrow> Inr (setFunctionProp R f label new)
                   | x \<Rightarrow> touch R x (max v 0))))"

text \<open>
  Lines 81 to 84 when \<open>groups[groupName]\<close> is a text that \<open>Object.prototype\<close> holds under
  the group name. The text has its length and its characters as own properties, all
  truthy primitives; \<open>numberLength\<close> gives the length of the decimal rendering of a
  number. The properties of \<open>String.prototype\<close> are functions and \<open>__proto__\<close> is
  \<open>String.prototype\<close>. Nothing can be assigned to a property of a text.
\<close>

definition textLength :: "(real \<Rightarrow> nat) \<Rightarrow> real list \<Rightarrow> nat" where
  "textLength numberLength ms = 15 + sum_list (map numberLength ms)"

definition addToText :: "(real \<Rightarrow> nat) \<Rightarrow> realm \<Rightarrow> real list \<Rightarrow> string \<Rightarrow> real \<Rightarrow> stop + realm" where
  "addToText numberLength R ms label v =
     (if label = ''length'' then Inl TypeError
      else if (case arrayIndex label of
                 Some i \<Rightarrow> i < textLength numberLength ms | None \<Rightarrow> False) then Inl TypeError
      else if label \<in> set stringPrototypeNames then Inr R
      else if label = ''__proto__'' then Inr R
      else
        (case viaPrototype R label of
           FoundNothing \<Rightarrow> Inl TypeError
         | x \<Rightarrow> touch R x (max v 0)))"

text \<open>
  One record (lines 50 to 84). Line 77 reads \<open>groups[groupName]\<close>: an own property of
  \<open>groups\<close>, else what \<open>Object.prototype\<close> holds under that name; line 78 creates the
  group when that is \<open>undefined\<close> or \<open>NaN\<close>.
\<close>

definition addGrouped ::
  "(colorArg \<Rightarrow> string option) \<Rightarrow> (real \<Rightarrow> nat) \<Rightarrow> field \<Rightarrow> field \<Rightarrow> field \<Rightarrow> tableRecord
     \<Rightarrow> (string \<times> items) list \<times> realm \<Rightarrow> stop + (string \<times> items) list \<times> realm" where
  "addGrouped getHexForColor numberLength labelField valueField groupByField r state =
     (let groups = fst state;
          R = snd state;
          label = recordLabel labelField r;
          v = recordValue valueField r;
          (groupName, groupColor) = groupOf getHexForColor R (getCellValue r groupByField);
          own = (\<lambda>its. case addItem R its label groupColor v of
                         Inl e \<Rightarrow> Inl e
                       | Inr (its', R') \<Rightarrow> Inr (putOwn groupName its' groups, R'));
          builtin = (\<lambda>res. case res of Inl e \<Rightarrow> Inl e | Inr R' \<Rightarrow> Inr (groups, R'))
      in case map_of groups groupName of
           Some its \<Rightarrow> own its
         | None \<Rightarrow>
             if groupName = ''__proto__'' then builtin (addToPrototype R label groupColor v)
             else if groupName \<in> set prototypeFunctions
               then builtin (addToFunction R groupName label groupColor v)
             else
               (case map_of (objectPrototype R) groupName of
                  None \<Rightarrow> own []
                | Some (AddedPrim PNaN) \<Rightarrow> own []
                | Some (AddedPrim (PText ms)) \<Rightarrow> builtin (addToText numberLength R ms label v)
                | Some (AddedEntry e) \<Rightarrow> builtin (addToEntry R groupName e label groupColor v)))"

text \<open>\<open>records.forEach\<close>: an exception ends the loop.\<close>

fun forEachGrouped :: "('r \<Rightarrow> 's \<Rightarrow> stop + 's) \<Rightarrow> 'r list \<Rightarrow> 's \<Rightarrow> stop + 's" where
  "forEachGrouped f [] state = Inr state"
| "forEachGrouped f (r # rs) state =
     (case f r state of Inl e \<Rightarrow> Inl e | Inr state' \<Rightarrow> forEachGrouped f rs state')"

text \<open>
  Lines 87 to 102. \<open>itemChildren[0]\<close> (line 98) is the first child; when the group has
  no child, the read continues in \<open>Array.prototype\<close> and \<open>Object.prototype\<close> and finds
  the entry stored there under \<open>0\<close>, if any.
\<close>

definition itemNode :: "string \<times> itemData \<Rightarrow> node" where
  "itemNode kv =
     Node (fst kv) (Some (Num (itemValue (snd kv)))) (map_option Hex (itemColor (snd kv))) None"

definition groupNode :: "realm \<Rightarrow> string \<times> items \<Rightarrow> node" where
  "groupNode R kv =
     (let itemChildren = map itemNode (entries (snd kv))
      in Node (fst kv) None
           (case itemChildren of
              [] \<Rightarrow> (case map_of (objectPrototype R) ''0'' of
                       Some (AddedEntry e) \<Rightarrow> heldColor e
                     | _ \<Rightarrow> None)
            | c # cs \<Rightarrow> node_color c)
           (Some itemChildren))"

subsection \<open>The aggregator\<close>

text \<open>The tree built from \<open>aggregated\<close> (lines 119 to 126) and from \<open>groups\<close> (lines 87 to 104).\<close>

definition flatTree :: "string \<Rightarrow> (string \<times> jsval) list \<Rightarrow> node" where
  "flatTree title aggregated = Node title None None (Some (map leafNode (entries aggregated)))"

definition groupedTree :: "string \<Rightarrow> realm \<Rightarrow> (string \<times> items) list \<Rightarrow> node" where
  "groupedTree title R groups = Node title None None (Some (map (groupNode R) (entries groups)))"

text \<open>The body of the callback (lines 39 to 126), started in a fresh realm.\<close>

definition treemapData ::
  "(colorArg \<Rightarrow> string option) \<Rightarrow> (real \<Rightarrow> nat) \<Rightarrow> string \<Rightarrow> field option \<Rightarrow> field option
     \<Rightarrow> field option \<Rightarrow> tableRecord list \<Rightarrow> stop + node" where
  "treemapData getHexForColor numberLength title labelField valueField groupByField records =
     (case (labelField, valueField) of
        (Some lf, Some vf) \<Rightarrow>
          if records = [] then Inr (Node title None None (Some []))
          else (case groupByField of
                  Some gf \<Rightarrow>
                    (case forEachGrouped (addGrouped getHexForColor numberLength lf vf gf)
                            records ([], freshRealm) of
                       Inl e \<Rightarrow> Inl e
                     | Inr (groups, R) \<Rightarrow> Inr (groupedTree title R groups))
                | None \<Rightarrow> Inr (flatTree title (fold (addRecord lf vf) records [])))
      | _ \<Rightarrow> Inr (Node title None None (Some [])))"

subsection \<open>Notions used to state the properties\<close>

text \<open>The distinct elements of a list in the order of their first occurrence.\<close>

primrec firstSeen :: "'a list \<Rightarrow> 'a list" where
  "firstSeen [] = []"
| "firstSeen (x # xs) = x # removeAll x (firstSeen xs)"

text \<open>The order in which \<open>Object.entries\<close> lists keys that were created in the order \<open>ks\<close>.\<close>

definition propertyOrder :: "string list \<Rightarrow> string list" where
  "propertyOrder ks =
     sort_key (\<lambda>k. the (arrayIndex k)) (filter isIndex ks) @ filter (\<lambda>k. \<not> isIndex k) ks"

text \<open>
  The group name that lines 53 to 75 give a record when nothing has been written to
  \<open>Object.prototype\<close>, and the own property \<open>groups[g]\<close> read as a list.
\<close>

definition recordGroup :: "(colorArg \<Rightarrow> string option) \<Rightarrow> field \<Rightarrow> tableRecord \<Rightarrow> string" where
  "recordGroup getHexForColor groupByField r =
     fst (groupOf getHexForColor freshRealm (getCellValue r groupByField))"

definition itemsOf :: "(string \<times> items) list \<Rightarrow> string \<Rightarrow> items" where
  "itemsOf groups g = (case map_of groups g of Some its \<Rightarrow> its | None \<Rightarrow> [])"

text \<open>Leaves carry a value and no children; branches carry leaves and no value.\<close>

definition isLeaf :: "node \<Rightarrow> bool" where
  "isLeaf n = (node_value n \<noteq> None \<and> node_children n = None)"

definition isBranch :: "node \<Rightarrow> bool" where
  "isBranch n =
     (node_value n = None \<and>
      (case node_children n of Some cs \<Rightarrow> list_all isLeaf cs | None \<Rightarrow> False))"

text \<open>
  The shape of a tree: the root carries no value and a list of children, which are
  branches when there is a group field and leaves when there is none.
\<close>

definition rootShape :: "bool \<Rightarrow> node \<Rightarrow> bool" where
  "rootShape grouped tree =
     (node_value tree = None \<and>
      (case node_children tree of
         Some cs \<Rightarrow> if grouped then list_all isBranch cs else list_all isLeaf cs
       | None \<Rightarrow> False))"

text \<open>Every child of the root has the colour of the first of its own children, if any.\<close>

definition colorsFromFirstChild :: "node \<Rightarrow> bool" where
  "colorsFromFirstChild tree =
     (case node_children tree of
        Some gs \<Rightarrow>
          list_all
            (\<lambda>g. node_color g =
                   (case node_children g of Some (c # cs) \<Rightarrow> node_color c | _ \<Rightarrow> None))
            gs
      | None \<Rightarrow> False)"

text \<open>A leaf value that is a number and not negative; the number a leaf carries.\<close>

fun nonNegativeNumber :: "jsval \<Rightarrow> bool" where
  "nonNegativeNumber (Num x) = (0 \<le> x)"
| "nonNegativeNumber v = False"

definition leafNumber :: "node \<Rightarrow> real" where
  "leafNumber n = (case node_value n of Some (Num x) \<Rightarrow> x | _ \<Rightarrow> 0)"

text \<open>
  The aggregation as the specification describes it. Without a group field: the sum,
  over the records with the label \<open>l\<close>, of their values clamped at zero.
\<close>

definition labelTotal :: "field \<Rightarrow> field \<Rightarrow> tableRecord list \<Rightarrow> string \<Rightarrow> real" where
  "labelTotal lf vf rs l =
     (\<Sum>r \<leftarrow> filter (\<lambda>r. recordLabel lf r = l) rs. max (recordValue vf r) 0)"

text \<open>
  With a group field: the records of the group \<open>g\<close> with the label \<open>l\<close>; the entry
  expected for them (the sum of their clamped values, the colour of the first of them);
  the entries expected for a group, one for each label in first-seen order; the groups
  expected, in first-seen order.
\<close>

definition matching ::
  "(colorArg \<Rightarrow> string option) \<Rightarrow> field \<Rightarrow> field \<Rightarrow> string \<Rightarrow> string \<Rightarrow> tableRecord list
     \<Rightarrow> tableRecord list" where
  "matching hex lf gf g l rs =
     filter (\<lambda>r. recordGroup hex gf r = g \<and> recordLabel lf r = l) rs"

definition expectedItem ::
  "(colorArg \<Rightarrow> string option) \<Rightarrow> field \<Rightarrow> field \<Rightarrow> field \<Rightarrow> tableRecord list
     \<Rightarrow> string \<Rightarrow> string \<Rightarrow> itemData" where
  "expectedItem hex lf vf gf rs g l =
     \<lparr>itemValue = (\<Sum>r \<leftarrow> matching hex lf gf g l rs. max (recordValue vf r) 0),
      itemColor = (case matching hex lf gf g l rs of
                     [] \<Rightarrow> None
                   | r # _ \<Rightarrow> snd (groupOf hex freshRealm (getCellValue r gf)))\<rparr>"

definition expectedItems ::
  "(colorArg \<Rightarrow> string option) \<Rightarrow> field \<Rightarrow> field \<Rightarrow> field \<Rightarrow> tableRecord list
     \<Rightarrow> string \<Rightarrow> items" where
  "expectedItems hex lf vf gf rs g =
     map (\<lambda>l. (l, expectedItem hex lf vf gf rs g l))
       (firstSeen (map (recordLabel lf) (filter (\<lambda>r. recordGroup hex gf r = g) rs)))"

definition expectedGroups ::
  "(colorArg \<Rightarrow> string option) \<Rightarrow> field \<Rightarrow> field \<Rightarrow> field \<Rightarrow> tableRecord list
     \<Rightarrow> (string \<times> items) list" where
  "expectedGroups hex lf vf gf rs =
     map (\<lambda>g. (g, expectedItems hex lf vf gf rs g)) (firstSeen (map (recordGroup hex gf) rs))"

text \<open>
  An invariant of \<open>groups\<close> during the loop: keys are distinct at both levels and no
  entry has a negative value.
\<close>

definition wellFormedGroups :: "(string \<times> items) list \<Rightarrow> bool" where
  "wellFormedGroups groups =
     (distinct (map fst groups) \<and>
      list_all (\<lambda>kv. distinct (map fst (snd kv)) \<and>
                     list_all (\<lambda>lv. 0 \<le> itemValue (snd lv)) (snd kv)) groups)"

text \<open>
  A realm in which the loop has stored nothing but \<open>NaN\<close> on the built-in objects: the
  state that records leave behind when none of their group names is a property name of
  \<open>Object.prototype\<close>.
\<close>

definition quiet :: "realm \<Rightarrow> bool" where
  "quiet R =
     (list_all (\<lambda>ka. snd ka = AddedPrim PNaN) (objectPrototype R)
      \<and> functionPrototypeValue R = None
      \<and> list_all (\<lambda>fp. list_all (\<lambda>kp. snd kp = FPrim PNaN) (snd fp)) (functionProps R))"

text \<open>
  A record of a table with the fields \<open>Name\<close> (the label), \<open>Amount\<close> (the value) and
  \<open>Category\<close> (the group), and a colour resolver that returns the name of the colour it
  is given.
\<close>

definition row :: "string \<Rightarrow> cell \<Rightarrow> cell \<Rightarrow> tableRecord" where
  "row label v g =
     \<lparr>getCellValue = (\<lambda>f. if f = ''Amount'' then v else if f = ''Category'' then g else CNull),
      getCellValueAsString = (\<lambda>f. if f = ''Name'' then label else [])\<rparr>"

definition sameHex :: "colorArg \<Rightarrow> string option" where
  "sameHex c = (case c of ColorName s \<Rightarrow> Some s | ColorObject \<Rightarrow> None)"

section \<open>Properties\<close>

lemmas run_defs =
  treemapData_def flatTree_def groupedTree_def addRecord_def addGrouped_def addItem_def
  addToPrototype_def addToEntry_def addToFunction_def addToText_def textLength_def
  freshEntry_def freshRealm_def propsOf_def viaPrototype_def inheritsEntry_def
  valueOfPrototype_def valueOfFunctionPrototype_def valueOfFunction_def
  bumpItem_def bumpEntry_def bumpPrototype_def bumpFunctionPrototype_def bumpFunction_def
  setFunctionProp_def setAdded_def objectStatics_def functionPrototypeMethods_def
  stringPrototypeNames_def recordLabel_def recordValue_def recordGroup_def groupOf_def
  getProp_def assignPrimitive_def prototypeFunctions_def inheritedName_def entries_def
  propertyOrder_def isIndex_def arrayIndex_def digitOf_def leafNode_def itemNode_def
  groupNode_def row_def sameHex_def Let_def

subsection \<open>Own properties and their order\<close>

lemma map_of_putOwn: "map_of (putOwn k v kvs) = (map_of kvs)(k \<mapsto> v)"
  by (induction kvs) (auto simp: fun_eq_iff)

lemma keys_putOwn:
  "map fst (putOwn k v kvs) = (if k \<in> set (map fst kvs) then map fst kvs else map fst kvs @ [k])"
  by (induction kvs) force+

lemma distinct_putOwn: "distinct (map fst kvs) \<Longrightarrow> distinct (map fst (putOwn k v kvs))"
  by (simp add: keys_putOwn)

lemma getProp_putOwn: "getProp (putOwn k v obj) k = Own v"
  by (simp add: getProp_def map_of_putOwn)

lemma putOwn_twice: "putOwn k v (putOwn k w obj) = putOwn k v obj"
  by (induction obj) auto

lemma list_all_putOwn:
  "list_all P kvs \<Longrightarrow> P (k, v) \<Longrightarrow> list_all P (putOwn k v kvs)"
  by (induction kvs) auto

text \<open>An object that holds \<open>d k\<close> under each key \<open>k\<close> of a list of distinct keys.\<close>

lemma map_of_tabulate:
  "map_of (map (\<lambda>k. (k, d k)) ks) k = (if k \<in> set ks then Some (d k) else None)"
  by (induction ks) auto

lemma putOwn_tabulate_new:
  "k \<notin> set ks \<Longrightarrow> putOwn k v (map (\<lambda>k. (k, d k)) ks) = map (\<lambda>k. (k, d k)) ks @ [(k, v)]"
  by (induction ks) auto

lemma putOwn_tabulate_old:
  "distinct ks \<Longrightarrow> k \<in> set ks \<Longrightarrow>
     putOwn k v (map (\<lambda>k. (k, d k)) ks) = map (\<lambda>j. (j, if j = k then v else d j)) ks"
  by (induction ks) auto

text \<open>\<open>Object.entries\<close> permutes the own properties; its order depends on the keys only.\<close>

lemma insort_key_map_fst:
  "map fst (insort_key (\<lambda>kv. f (fst kv)) x xs) = insort_key f (fst x) (map fst xs)"
  by (induction xs) auto

lemma sort_key_map_fst:
  "map fst (sort_key (\<lambda>kv. f (fst kv)) xs) = sort_key f (map fst xs)"
  by (induction xs) (auto simp: insort_key_map_fst)

lemma set_entries: "set (entries obj) = set obj"
  by (auto simp: entries_def)

lemma keys_entries: "map fst (entries obj) = propertyOrder (map fst obj)"
  by (simp add: entries_def propertyOrder_def filter_map comp_def
        sort_key_map_fst [of "\<lambda>k. the (arrayIndex k)"])

lemma distinct_propertyOrder: "distinct ks \<Longrightarrow> distinct (propertyOrder ks)"
  by (auto simp: propertyOrder_def)

lemma sum_list_insort_key:
  fixes f :: "'a \<Rightarrow> real"
  shows "sum_list (map f (insort_key k x xs)) = f x + sum_list (map f xs)"
  by (induction xs) (auto simp: algebra_simps)

lemma sum_list_sort_key:
  fixes f :: "'a \<Rightarrow> real"
  shows "sum_list (map f (sort_key k xs)) = sum_list (map f xs)"
  by (induction xs) (auto simp: sum_list_insort_key)

lemma sum_list_partition:
  fixes f :: "'a \<Rightarrow> real"
  shows "sum_list (map f (filter P xs)) + sum_list (map f (filter (\<lambda>x. \<not> P x) xs))
     = sum_list (map f xs)"
  by (induction xs) (auto simp: algebra_simps)

lemma sum_list_entries:
  fixes f :: "string \<times> 'a \<Rightarrow> real"
  shows "sum_list (map f (entries obj)) = sum_list (map f obj)"
  by (simp add: entries_def sum_list_sort_key sum_list_partition)

text \<open>First-seen order, extended by one element at the end.\<close>

lemma set_firstSeen: "set (firstSeen xs) = set xs"
  by (induction xs) auto

lemma distinct_firstSeen: "distinct (firstSeen xs)"
  by (induction xs) (auto simp: distinct_removeAll)

lemma firstSeen_snoc:
  "firstSeen (xs @ [x]) = (if x \<in> set xs then firstSeen xs else firstSeen xs @ [x])"
  by (induction xs) (auto simp: set_firstSeen)

lemma filter_absent: "y \<notin> set (map f xs) \<Longrightarrow> filter (\<lambda>x. f x = y) xs = []"
  by (induction xs) auto

lemma sum_list_no_bump:
  fixes t :: "'a \<Rightarrow> real"
  shows "k \<notin> set ks \<Longrightarrow> sum_list (map (\<lambda>l. if l = k then t l + m else t l) ks) = sum_list (map t ks)"
  by (induction ks) auto

lemma sum_list_bump:
  fixes t :: "'a \<Rightarrow> real"
  assumes "distinct ks" and "k \<in> set ks"
  shows "sum_list (map (\<lambda>l. if l = k then t l + m else t l) ks) = sum_list (map t ks) + m"
  using assms by (induction ks) (auto simp: sum_list_no_bump)

subsection \<open>The nodes\<close>

lemma node_id_leafNode: "map node_id (map leafNode kvs) = map fst kvs"
  by (simp add: leafNode_def comp_def)

lemma node_id_itemNode: "map node_id (map itemNode kvs) = map fst kvs"
  by (simp add: itemNode_def comp_def)

lemma node_id_groupNode: "map node_id (map (groupNode R) kvs) = map fst kvs"
  by (simp add: groupNode_def comp_def Let_def)

lemma isLeaf_leafNode: "isLeaf (leafNode kv)"
  by (simp add: isLeaf_def leafNode_def)

lemma isLeaf_itemNode: "isLeaf (itemNode kv)"
  by (simp add: isLeaf_def itemNode_def)

lemma isBranch_groupNode: "isBranch (groupNode R kv)"
  by (simp add: isBranch_def groupNode_def Let_def list_all_iff isLeaf_itemNode)

lemma groupNode_color:
  assumes "\<not> inheritsEntry R ''0''"
  shows "node_color (groupNode R kv) =
           (case node_children (groupNode R kv) of Some (c # cs) \<Rightarrow> node_color c | _ \<Rightarrow> None)"
  using assms
  by (auto simp: groupNode_def Let_def inheritsEntry_def split: list.splits option.splits added.splits)

lemma treemapData_cases:
  assumes "treemapData hex len title lf vf gf records = Inr tree"
  obtains
    (empty) "lf = None \<or> vf = None \<or> records = []" "tree = Node title None None (Some [])"
  | (flat) l v where "lf = Some l" "vf = Some v" "gf = None" "records \<noteq> []"
      "tree = Node title None None (Some (map leafNode (entries (fold (addRecord l v) records []))))"
  | (grouped) l v g groups R where "lf = Some l" "vf = Some v" "gf = Some g" "records \<noteq> []"
      "forEachGrouped (addGrouped hex len l v g) records ([], freshRealm) = Inr (groups, R)"
      "tree = Node title None None (Some (map (groupNode R) (entries groups)))"
  using assms
  by (auto simp: treemapData_def flatTree_def groupedTree_def
      split: option.splits if_splits sum.splits prod.splits)

subsection \<open>The loop without a group field\<close>

text \<open>
  When no label is a property name of \<open>Object.prototype\<close>, the loop of lines 108 to 117
  leaves in \<open>aggregated\<close> exactly the totals per label, created in first-seen order.
\<close>

lemma addRecord_putOwn:
  assumes "recordLabel lf r \<noteq> ''__proto__''"
  shows "addRecord lf vf r agg =
           putOwn (recordLabel lf r)
             (plusNumber
                (if truthy (getProp agg (recordLabel lf r)) then getProp agg (recordLabel lf r)
                 else Own (Num 0))
                (max (recordValue vf r) 0))
             agg"
  using assms
  by (simp add: addRecord_def Let_def assignPrimitive_def getProp_putOwn putOwn_twice)

lemma addRecord_tabulate:
  assumes "\<not> inheritedName (recordLabel lf r)" and "distinct ks"
  shows "addRecord lf vf r (map (\<lambda>k. (k, Num (t k))) ks) =
           (if recordLabel lf r \<in> set ks
            then map (\<lambda>k. (k, Num (if k = recordLabel lf r
                                    then t k + max (recordValue vf r) 0 else t k))) ks
            else map (\<lambda>k. (k, Num (t k))) ks @
                   [(recordLabel lf r, Num (max (recordValue vf r) 0))])"
proof -
  let ?l = "recordLabel lf r"
  from assms(1) have np: "?l \<noteq> ''__proto__''" and nf: "?l \<notin> set prototypeFunctions"
    by (simp_all add: inheritedName_def)
  show ?thesis
  proof (cases "?l \<in> set ks")
    case True
    with assms(2) show ?thesis
      by (simp add: addRecord_putOwn [OF np] getProp_def map_of_tabulate
          putOwn_tabulate_old if_distrib [of Num] cong: if_cong)
  next
    case False
    with np nf show ?thesis
      by (simp add: addRecord_putOwn [OF np] getProp_def map_of_tabulate putOwn_tabulate_new)
  qed
qed

lemma labelTotal_snoc:
  "labelTotal lf vf (rs @ [r]) l =
     (if recordLabel lf r = l then labelTotal lf vf rs l + max (recordValue vf r) 0
      else labelTotal lf vf rs l)"
  by (simp add: labelTotal_def)

lemma labelTotal_absent:
  "l \<notin> set (map (recordLabel lf) rs) \<Longrightarrow> labelTotal lf vf rs l = 0"
  by (simp add: labelTotal_def filter_absent)

lemma labelTotal_nonneg: "0 \<le> labelTotal lf vf rs l"
  by (auto simp: labelTotal_def intro!: sum_list_nonneg)

lemma flat_exact:
  assumes "\<forall>r \<in> set rs. \<not> inheritedName (recordLabel lf r)"
  shows "fold (addRecord lf vf) rs [] =
           map (\<lambda>l. (l, Num (labelTotal lf vf rs l))) (firstSeen (map (recordLabel lf) rs))"
  using assms
proof (induction rs rule: rev_induct)
  case Nil
  then show ?case by simp
next
  case (snoc r rs)
  then have IH: "fold (addRecord lf vf) rs [] =
           map (\<lambda>l. (l, Num (labelTotal lf vf rs l))) (firstSeen (map (recordLabel lf) rs))"
    and ok: "\<not> inheritedName (recordLabel lf r)"
    by simp_all
  show ?case
  proof (cases "recordLabel lf r \<in> set (map (recordLabel lf) rs)")
    case True
    then show ?thesis
      by (simp add: IH addRecord_tabulate [OF ok distinct_firstSeen] firstSeen_snoc
          set_firstSeen labelTotal_snoc eq_commute [of "recordLabel lf r"] if_distrib cong: if_cong)
  next
    case False
    then have "labelTotal lf vf rs (recordLabel lf r) = 0"
      by (rule labelTotal_absent)
    moreover have "map (\<lambda>l. (l, Num (labelTotal lf vf (rs @ [r]) l))) (firstSeen (map (recordLabel lf) rs))
        = map (\<lambda>l. (l, Num (labelTotal lf vf rs l))) (firstSeen (map (recordLabel lf) rs))"
      using False by (intro map_cong) (auto simp: labelTotal_snoc set_firstSeen)
    ultimately show ?thesis using False
      by (simp add: IH addRecord_tabulate [OF ok distinct_firstSeen] firstSeen_snoc
          set_firstSeen labelTotal_snoc)
  qed
qed

lemma sum_labelTotal:
  "sum_list (map (labelTotal lf vf rs) (firstSeen (map (recordLabel lf) rs)))
     = (\<Sum>r \<leftarrow> rs. max (recordValue vf r) 0)"
proof (induction rs rule: rev_induct)
  case Nil
  then show ?case by simp
next
  case (snoc r rs)
  let ?l = "recordLabel lf r" and ?ks = "firstSeen (map (recordLabel lf) rs)"
  have step: "labelTotal lf vf (rs @ [r]) =
          (\<lambda>l. if l = ?l then labelTotal lf vf rs l + max (recordValue vf r) 0
               else labelTotal lf vf rs l)"
    by (auto simp: fun_eq_iff labelTotal_snoc)
  show ?case
  proof (cases "?l \<in> set (map (recordLabel lf) rs)")
    case True
    then have "?l \<in> set ?ks" by (simp add: set_firstSeen)
    with True show ?thesis
      by (simp add: firstSeen_snoc step sum_list_bump [OF distinct_firstSeen] snoc.IH)
  next
    case False
    then have "?l \<notin> set ?ks" by (simp add: set_firstSeen)
    then have "sum_list (map (\<lambda>l. if l = ?l then labelTotal lf vf rs l + max (recordValue vf r) 0
                         else labelTotal lf vf rs l) ?ks)
                 = sum_list (map (labelTotal lf vf rs) ?ks)"
      by (rule sum_list_no_bump)
    with False show ?thesis
      by (simp add: firstSeen_snoc step snoc.IH labelTotal_absent)
  qed
qed

lemma flat_tree:
  assumes "\<forall>r \<in> set records. \<not> inheritedName (recordLabel lf r)"
  shows "treemapData hex len title (Some lf) (Some vf) None records =
           Inr (Node title None None
                  (Some (map leafNode (entries
                     (map (\<lambda>l. (l, Num (labelTotal lf vf records l)))
                        (firstSeen (map (recordLabel lf) records)))))))"
  using flat_exact [OF assms, of vf]
  by (cases "records = []") (simp_all add: treemapData_def flatTree_def groupedTree_def entries_def)

text \<open>
  Hence, for such records: the ids of the leaves are distinct, each leaf carries the total
  of its label, no leaf is negative, and the leaves sum to the sum of the clamped values
  of all records.
\<close>

lemma flat_leaves:
  assumes "\<forall>r \<in> set records. \<not> inheritedName (recordLabel lf r)"
  shows "\<exists>cs. treemapData hex len title (Some lf) (Some vf) None records
                 = Inr (Node title None None (Some cs))
            \<and> distinct (map node_id cs)
            \<and> (\<forall>c \<in> set cs. node_value c = Some (Num (labelTotal lf vf records (node_id c))))
            \<and> (\<forall>c \<in> set cs. 0 \<le> leafNumber c)
            \<and> sum_list (map leafNumber cs) = (\<Sum>r \<leftarrow> records. max (recordValue vf r) 0)"
proof -
  let ?ks = "firstSeen (map (recordLabel lf) records)"
  let ?agg = "map (\<lambda>l. (l, Num (labelTotal lf vf records l))) ?ks"
  let ?cs = "map leafNode (entries ?agg)"
  have agg: "fold (addRecord lf vf) records [] = ?agg"
    using assms by (rule flat_exact)
  have tree: "treemapData hex len title (Some lf) (Some vf) None records
                = Inr (Node title None None (Some ?cs))"
    by (cases "records = []") (simp_all add: treemapData_def flatTree_def groupedTree_def agg entries_def)
  have val: "node_value c = Some (Num (labelTotal lf vf records (node_id c)))"
    if "c \<in> set ?cs" for c
    using that by (auto simp: set_entries leafNode_def)
  have ids: "map node_id ?cs = propertyOrder ?ks"
    by (simp only: node_id_leafNode keys_entries) (simp add: comp_def)
  have dist: "distinct (propertyOrder ?ks)"
    by (auto simp: propertyOrder_def distinct_firstSeen isIndex_def)
  have nonneg: "0 \<le> leafNumber c" if "c \<in> set ?cs" for c
    using val [OF that] by (simp add: leafNumber_def labelTotal_nonneg)
  have "sum_list (map leafNumber ?cs)
          = sum_list (map (\<lambda>kv. case snd kv of Num x \<Rightarrow> x | _ \<Rightarrow> 0) (entries ?agg))"
    by (simp add: leafNumber_def leafNode_def comp_def)
  also have "\<dots> = sum_list (map (\<lambda>kv. case snd kv of Num x \<Rightarrow> x | _ \<Rightarrow> 0) ?agg)"
    by (rule sum_list_entries)
  also have "\<dots> = sum_list (map (labelTotal lf vf records) ?ks)"
    by (simp add: comp_def)
  also have "\<dots> = (\<Sum>r \<leftarrow> records. max (recordValue vf r) 0)"
    by (rule sum_labelTotal)
  finally have total: "sum_list (map leafNumber ?cs) = (\<Sum>r \<leftarrow> records. max (recordValue vf r) 0)" .
  from tree val nonneg total ids dist show ?thesis
    by (intro exI [of _ ?cs]) (simp del: map_map)
qed

text \<open>The ids of the leaves are distinct for every input.\<close>

lemma distinct_addRecord:
  "distinct (map fst agg) \<Longrightarrow> distinct (map fst (addRecord lf vf r agg))"
  by (simp add: addRecord_def Let_def assignPrimitive_def distinct_putOwn)

lemma distinct_fold_addRecord:
  "distinct (map fst agg) \<Longrightarrow> distinct (map fst (fold (addRecord lf vf) rs agg))"
  by (induction rs arbitrary: agg) (simp_all add: distinct_addRecord)

subsection \<open>The loop with a group field\<close>

lemma forEachGrouped_snoc:
  "forEachGrouped f (rs @ [r]) groups =
     (case forEachGrouped f rs groups of Inl e \<Rightarrow> Inl e | Inr groups' \<Rightarrow> f r groups')"
  by (induction rs arbitrary: groups) (auto split: sum.splits)

lemma objectPrototype_freshRealm: "objectPrototype freshRealm = []"
  by (simp add: freshRealm_def)

lemma addGrouped_own:
  assumes "\<not> inheritedName (fst (groupOf hex freshRealm (getCellValue r gf)))"
  shows "addGrouped hex len lf vf gf r (groups, freshRealm) =
           (case addItem freshRealm (itemsOf groups (fst (groupOf hex freshRealm (getCellValue r gf))))
                   (recordLabel lf r) (snd (groupOf hex freshRealm (getCellValue r gf)))
                   (recordValue vf r) of
              Inl e \<Rightarrow> Inl e
            | Inr (its', R') \<Rightarrow>
                Inr (putOwn (fst (groupOf hex freshRealm (getCellValue r gf))) its' groups, R'))"
proof -
  obtain g c where gc: "groupOf hex freshRealm (getCellValue r gf) = (g, c)"
    by (cases "groupOf hex freshRealm (getCellValue r gf)")
  with assms have "g \<noteq> ''__proto__''" and "g \<notin> set prototypeFunctions"
    by (simp_all add: inheritedName_def)
  then show ?thesis
    unfolding gc fst_conv snd_conv
    by (simp add: addGrouped_def gc Let_def itemsOf_def objectPrototype_freshRealm
        split: option.splits)
qed

lemma matching_snoc:
  "matching hex lf gf g l (rs @ [r]) =
     (if recordGroup hex gf r = g \<and> recordLabel lf r = l
      then matching hex lf gf g l rs @ [r] else matching hex lf gf g l rs)"
  by (simp add: matching_def)

lemma matching_empty_iff:
  "matching hex lf gf g l rs = [] \<longleftrightarrow>
     l \<notin> set (map (recordLabel lf) (filter (\<lambda>r. recordGroup hex gf r = g) rs))"
  by (auto simp: matching_def filter_empty_conv)

lemma expectedItem_other:
  assumes "\<not> (recordGroup hex gf r = g \<and> recordLabel lf r = l)"
  shows "expectedItem hex lf vf gf (rs @ [r]) g l = expectedItem hex lf vf gf rs g l"
proof -
  from assms have "matching hex lf gf g l (rs @ [r]) = matching hex lf gf g l rs"
    by (auto simp: matching_snoc)
  then show ?thesis by (simp add: expectedItem_def)
qed

lemma expectedItem_new:
  assumes "recordLabel lf r \<notin> set (map (recordLabel lf)
             (filter (\<lambda>x. recordGroup hex gf x = recordGroup hex gf r) rs))"
  shows "expectedItem hex lf vf gf (rs @ [r]) (recordGroup hex gf r) (recordLabel lf r) =
           \<lparr>itemValue = 0 + max (recordValue vf r) 0,
            itemColor = snd (groupOf hex freshRealm (getCellValue r gf))\<rparr>"
proof -
  from assms have "matching hex lf gf (recordGroup hex gf r) (recordLabel lf r) rs = []"
    using matching_empty_iff [of hex lf gf "recordGroup hex gf r" "recordLabel lf r" rs]
    by blast
  then show ?thesis by (simp add: expectedItem_def matching_snoc)
qed

lemma expectedItem_old:
  assumes "recordLabel lf r \<in> set (map (recordLabel lf)
             (filter (\<lambda>x. recordGroup hex gf x = recordGroup hex gf r) rs))"
  shows "expectedItem hex lf vf gf (rs @ [r]) (recordGroup hex gf r) (recordLabel lf r) =
           (expectedItem hex lf vf gf rs (recordGroup hex gf r) (recordLabel lf r))
             \<lparr>itemValue := itemValue (expectedItem hex lf vf gf rs (recordGroup hex gf r)
                                         (recordLabel lf r)) + max (recordValue vf r) 0\<rparr>"
proof -
  from assms have "matching hex lf gf (recordGroup hex gf r) (recordLabel lf r) rs \<noteq> []"
    using matching_empty_iff [of hex lf gf "recordGroup hex gf r" "recordLabel lf r" rs]
    by blast
  then show ?thesis
    by (cases "matching hex lf gf (recordGroup hex gf r) (recordLabel lf r) rs")
       (simp_all add: expectedItem_def matching_snoc)
qed

lemma addItem_expected:
  assumes "\<not> inheritedName (recordLabel lf r)"
  shows "addItem freshRealm (expectedItems hex lf vf gf rs (recordGroup hex gf r))
           (recordLabel lf r) (snd (groupOf hex freshRealm (getCellValue r gf))) (recordValue vf r)
         = Inr (expectedItems hex lf vf gf (rs @ [r]) (recordGroup hex gf r), freshRealm)"
proof -
  let ?g = "recordGroup hex gf r" and ?l = "recordLabel lf r"
  let ?ls = "map (recordLabel lf) (filter (\<lambda>x. recordGroup hex gf x = ?g) rs)"
  from assms have np: "?l \<noteq> ''__proto__''" and nf: "?l \<notin> set prototypeFunctions"
    by (simp_all add: inheritedName_def)
  show ?thesis
  proof (cases "?l \<in> set ?ls")
    case True
    have "map (\<lambda>j. (j, if j = ?l
                       then (expectedItem hex lf vf gf rs ?g ?l)
                              \<lparr>itemValue := itemValue (expectedItem hex lf vf gf rs ?g ?l)
                                  + max (recordValue vf r) 0\<rparr>
                       else expectedItem hex lf vf gf rs ?g j)) (firstSeen ?ls)
          = map (\<lambda>j. (j, expectedItem hex lf vf gf (rs @ [r]) ?g j)) (firstSeen ?ls)"
      using True by (intro map_cong) (auto simp: expectedItem_old expectedItem_other)
    with True show ?thesis
      by (simp add: addItem_def bumpItem_def expectedItems_def map_of_tabulate set_firstSeen
          putOwn_tabulate_old distinct_firstSeen firstSeen_snoc)
  next
    case False
    have "map (\<lambda>j. (j, expectedItem hex lf vf gf rs ?g j)) (firstSeen ?ls)
          = map (\<lambda>j. (j, expectedItem hex lf vf gf (rs @ [r]) ?g j)) (firstSeen ?ls)"
    proof (rule map_cong [OF refl])
      fix j assume "j \<in> set (firstSeen ?ls)"
      then have "j \<in> set ?ls" by (simp only: set_firstSeen)
      with False have "j \<noteq> ?l" by blast
      then show "(j, expectedItem hex lf vf gf rs ?g j)
                   = (j, expectedItem hex lf vf gf (rs @ [r]) ?g j)"
        by (simp add: expectedItem_other)
    qed
    with False np nf show ?thesis
      by (simp add: addItem_def viaPrototype_def freshRealm_def expectedItems_def
          map_of_tabulate set_firstSeen putOwn_tabulate_new firstSeen_snoc expectedItem_new)
  qed
qed

lemma expectedItems_other:
  assumes "recordGroup hex gf r \<noteq> g"
  shows "expectedItems hex lf vf gf (rs @ [r]) g = expectedItems hex lf vf gf rs g"
  using assms by (simp add: expectedItems_def expectedItem_other)

lemma expectedItems_absent:
  assumes "g \<notin> set (map (recordGroup hex gf) rs)"
  shows "expectedItems hex lf vf gf rs g = []"
  using assms by (simp add: expectedItems_def filter_absent)

lemma itemsOf_expected:
  "itemsOf (expectedGroups hex lf vf gf rs) g = expectedItems hex lf vf gf rs g"
  by (simp add: itemsOf_def expectedGroups_def map_of_tabulate set_firstSeen
      expectedItems_absent)

text \<open>
  When no label and no group name is a property name of \<open>Object.prototype\<close>, the loop of
  lines 49 to 85 ends normally and leaves in \<open>groups\<close> exactly the expected groups.
\<close>

lemma grouped_exact:
  assumes "\<forall>r \<in> set rs. \<not> inheritedName (recordLabel lf r)"
    and "\<forall>r \<in> set rs. \<not> inheritedName (recordGroup hex gf r)"
  shows "forEachGrouped (addGrouped hex len lf vf gf) rs ([], freshRealm)
           = Inr (expectedGroups hex lf vf gf rs, freshRealm)"
  using assms
proof (induction rs rule: rev_induct)
  case Nil
  then show ?case by (simp add: expectedGroups_def)
next
  case (snoc r rs)
  let ?g = "recordGroup hex gf r"
  let ?G = "firstSeen (map (recordGroup hex gf) rs)"
  from snoc have IH: "forEachGrouped (addGrouped hex len lf vf gf) rs ([], freshRealm)
                        = Inr (expectedGroups hex lf vf gf rs, freshRealm)"
    and okl: "\<not> inheritedName (recordLabel lf r)"
    and okg: "\<not> inheritedName (fst (groupOf hex freshRealm (getCellValue r gf)))"
    by (simp_all add: recordGroup_def)
  have step: "forEachGrouped (addGrouped hex len lf vf gf) (rs @ [r]) ([], freshRealm)
          = Inr (putOwn ?g (expectedItems hex lf vf gf (rs @ [r]) ?g)
                   (expectedGroups hex lf vf gf rs), freshRealm)"
    using addItem_expected [OF okl, of hex vf gf rs]
    by (simp add: forEachGrouped_snoc IH addGrouped_own [OF okg] itemsOf_expected
        recordGroup_def)
  have others: "map (\<lambda>g. (g, expectedItems hex lf vf gf (rs @ [r]) g)) ?G
                  = map (\<lambda>j. (j, if j = ?g then expectedItems hex lf vf gf (rs @ [r]) ?g
                                   else expectedItems hex lf vf gf rs j)) ?G"
    by (intro map_cong) (auto simp: expectedItems_other)
  show ?case
  proof (cases "?g \<in> set (map (recordGroup hex gf) rs)")
    case True
    with others show ?thesis
      by (simp add: step expectedGroups_def firstSeen_snoc set_firstSeen
          putOwn_tabulate_old distinct_firstSeen)
  next
    case False
    have "map (\<lambda>g. (g, expectedItems hex lf vf gf (rs @ [r]) g)) ?G
                 = map (\<lambda>g. (g, expectedItems hex lf vf gf rs g)) ?G"
    proof (rule map_cong [OF refl])
      fix j assume "j \<in> set ?G"
      then have "j \<in> set (map (recordGroup hex gf) rs)" by (simp only: set_firstSeen)
      with False have "?g \<noteq> j" by blast
      then show "(j, expectedItems hex lf vf gf (rs @ [r]) j)
                   = (j, expectedItems hex lf vf gf rs j)"
        by (simp add: expectedItems_other)
    qed
    with False show ?thesis
      by (simp add: step expectedGroups_def firstSeen_snoc set_firstSeen putOwn_tabulate_new)
  qed
qed

lemma keys_expectedGroups:
  "map fst (expectedGroups hex lf vf gf rs) = firstSeen (map (recordGroup hex gf) rs)"
  by (simp add: expectedGroups_def comp_def)

lemma keys_expectedItems:
  "map fst (expectedItems hex lf vf gf rs g) =
     firstSeen (map (recordLabel lf) (filter (\<lambda>r. recordGroup hex gf r = g) rs))"
  by (simp add: expectedItems_def comp_def)

lemma expectedItems_nonempty:
  assumes "g \<in> set (map (recordGroup hex gf) rs)"
  shows "expectedItems hex lf vf gf rs g \<noteq> []"
proof -
  from assms obtain r where "r \<in> set rs" and "recordGroup hex gf r = g" by auto
  then have "recordLabel lf r \<in> set (map (recordLabel lf)
               (filter (\<lambda>r. recordGroup hex gf r = g) rs))"
    by auto
  then have "recordLabel lf r \<in> set (map fst (expectedItems hex lf vf gf rs g))"
    by (simp only: keys_expectedItems set_firstSeen)
  then show ?thesis by auto
qed

lemma grouped_tree:
  assumes "\<forall>r \<in> set records. \<not> inheritedName (recordLabel lf r)"
    and "\<forall>r \<in> set records. \<not> inheritedName (recordGroup hex gf r)"
  shows "treemapData hex len title (Some lf) (Some vf) (Some gf) records =
           Inr (Node title None None
                  (Some (map (groupNode freshRealm)
                           (entries (expectedGroups hex lf vf gf records)))))"
proof (cases "records = []")
  case True
  then show ?thesis by (simp add: treemapData_def flatTree_def groupedTree_def expectedGroups_def entries_def)
next
  case False
  with grouped_exact [OF assms, where vf = vf and len = len] show ?thesis by (simp add: treemapData_def flatTree_def groupedTree_def)
qed

text \<open>
  Hence, for such records: group ids are distinct, no group node is empty, and within a
  group the leaf ids are distinct and each leaf carries the total and the first colour of
  its label in that group.
\<close>

lemma grouped_leaves:
  assumes "\<forall>r \<in> set records. \<not> inheritedName (recordLabel lf r)"
    and "\<forall>r \<in> set records. \<not> inheritedName (recordGroup hex gf r)"
  shows "\<exists>gs. treemapData hex len title (Some lf) (Some vf) (Some gf) records
                 = Inr (Node title None None (Some gs))
            \<and> distinct (map node_id gs)
            \<and> (\<forall>g \<in> set gs. \<exists>ls. node_children g = Some ls \<and> ls \<noteq> []
                  \<and> distinct (map node_id ls)
                  \<and> (\<forall>c \<in> set ls.
                        node_value c = Some (Num (itemValue
                          (expectedItem hex lf vf gf records (node_id g) (node_id c))))
                      \<and> node_color c = map_option Hex (itemColor
                          (expectedItem hex lf vf gf records (node_id g) (node_id c)))
                      \<and> 0 \<le> leafNumber c))"
proof -
  let ?groups = "expectedGroups hex lf vf gf records"
  let ?gs = "map (groupNode freshRealm) (entries ?groups)"
  have tree: "treemapData hex len title (Some lf) (Some vf) (Some gf) records
                = Inr (Node title None None (Some ?gs))"
    using assms by (rule grouped_tree)
  have "map node_id ?gs = propertyOrder (firstSeen (map (recordGroup hex gf) records))"
    by (simp only: node_id_groupNode keys_entries keys_expectedGroups)
  then have dist: "distinct (map node_id ?gs)"
    by (simp only: distinct_propertyOrder distinct_firstSeen)
  have inner: "\<exists>ls. node_children g = Some ls \<and> ls \<noteq> []
                  \<and> distinct (map node_id ls)
                  \<and> (\<forall>c \<in> set ls.
                        node_value c = Some (Num (itemValue
                          (expectedItem hex lf vf gf records (node_id g) (node_id c))))
                      \<and> node_color c = map_option Hex (itemColor
                          (expectedItem hex lf vf gf records (node_id g) (node_id c)))
                      \<and> 0 \<le> leafNumber c)"
    if "g \<in> set ?gs" for g
  proof -
    from that obtain k where k: "k \<in> set (map (recordGroup hex gf) records)"
      and g: "g = groupNode freshRealm (k, expectedItems hex lf vf gf records k)"
      by (auto simp: set_entries expectedGroups_def set_firstSeen)
    let ?its = "expectedItems hex lf vf gf records k"
    let ?ls = "map itemNode (entries ?its)"
    have ch: "node_children g = Some ?ls" and id: "node_id g = k"
      by (simp_all add: g groupNode_def Let_def)
    from k have "?its \<noteq> []" by (rule expectedItems_nonempty)
    then have "set (entries ?its) \<noteq> {}" by (simp add: set_entries)
    then have ne: "?ls \<noteq> []" by auto
    have "map node_id ?ls = propertyOrder (firstSeen (map (recordLabel lf)
              (filter (\<lambda>r. recordGroup hex gf r = k) records)))"
      by (simp only: node_id_itemNode keys_entries keys_expectedItems)
    then have dl: "distinct (map node_id ?ls)"
      by (simp only: distinct_propertyOrder distinct_firstSeen)
    have leaf: "node_value c = Some (Num (itemValue (expectedItem hex lf vf gf records k (node_id c))))
              \<and> node_color c = map_option Hex (itemColor (expectedItem hex lf vf gf records k (node_id c)))
              \<and> 0 \<le> leafNumber c"
      if "c \<in> set ?ls" for c
    proof -
      from that obtain l where "c = itemNode (l, expectedItem hex lf vf gf records k l)"
        by (auto simp: set_entries expectedItems_def)
      moreover have "0 \<le> itemValue (expectedItem hex lf vf gf records k l)"
        by (auto simp: expectedItem_def intro!: sum_list_nonneg)
      ultimately show ?thesis by (simp add: itemNode_def leafNumber_def)
    qed
    from ch ne dl leaf show ?thesis unfolding id by blast
  qed
  from tree dist inner show ?thesis by blast
qed

text \<open>
  For every input on which a tree is returned: sibling ids are distinct, and with a group
  field every leaf carries a number that is not negative.
\<close>

lemma wellFormed_addItem:
  assumes "distinct (map fst its)" and "list_all (\<lambda>lv. 0 \<le> itemValue (snd lv)) its"
    and "addItem R its l c v = Inr (its', R')"
  shows "distinct (map fst its') \<and> list_all (\<lambda>lv. 0 \<le> itemValue (snd lv)) its'"
proof -
  have old: "0 \<le> itemValue d" if "map_of its l = Some d" for d
    using assms(2) that by (fastforce simp: list_all_iff dest: map_of_SomeD)
  from assms show ?thesis
    by (auto simp: addItem_def bumpItem_def distinct_putOwn list_all_putOwn old
        split: option.splits found.splits sum.splits)
qed

lemma wellFormed_addGrouped:
  assumes "wellFormedGroups groups"
    and "addGrouped hex len lf vf gf r (groups, R) = Inr (groups', R')"
  shows "wellFormedGroups groups'"
proof -
  obtain g c where gc: "groupOf hex R (getCellValue r gf) = (g, c)"
    by (cases "groupOf hex R (getCellValue r gf)")
  have own: "distinct (map fst its) \<and> list_all (\<lambda>lv. 0 \<le> itemValue (snd lv)) its"
    if "map_of groups g = Some its" for its
    using assms(1) that by (auto simp: wellFormedGroups_def list_all_iff dest: map_of_SomeD)
  have new: "wellFormedGroups (putOwn g its' groups)"
    if "map_of groups g = Some its \<or> its = []"
      and "addItem R its (recordLabel lf r) c (recordValue vf r) = Inr (its', R')" for its its'
  proof -
    from that(1) own have "distinct (map fst its) \<and> list_all (\<lambda>lv. 0 \<le> itemValue (snd lv)) its"
      by auto
    with that(2) have "distinct (map fst its') \<and> list_all (\<lambda>lv. 0 \<le> itemValue (snd lv)) its'"
      using wellFormed_addItem by blast
    with assms(1) show ?thesis
      by (simp add: wellFormedGroups_def distinct_putOwn list_all_putOwn)
  qed
  have new1: "wellFormedGroups (putOwn g its' groups)"
    if "map_of groups g = Some its"
      and "addItem R its (recordLabel lf r) c (recordValue vf r) = Inr (its', R')" for its its'
    using new that by blast
  have new2: "wellFormedGroups (putOwn g its' groups)"
    if "addItem R [] (recordLabel lf r) c (recordValue vf r) = Inr (its', R')" for its'
    using new [of "[]"] that by blast
  from assms show ?thesis
    by (auto simp: addGrouped_def gc Let_def intro: new1 new2
        split: option.splits if_splits sum.splits prod.splits added.splits prim.splits)
qed

lemma wellFormed_forEachGrouped:
  assumes "wellFormedGroups (fst state)"
    and "forEachGrouped (addGrouped hex len lf vf gf) rs state = Inr state'"
  shows "wellFormedGroups (fst state')"
  using assms
proof (induction rs arbitrary: state)
  case Nil
  then show ?case by simp
next
  case (Cons r rs)
  from Cons.prems(2) obtain mid where
    step: "addGrouped hex len lf vf gf r state = Inr mid"
    and rest: "forEachGrouped (addGrouped hex len lf vf gf) rs mid = Inr state'"
    by (auto split: sum.splits)
  from step Cons.prems(1) have "wellFormedGroups (fst mid)"
    using wellFormed_addGrouped [of "fst state" hex len lf vf gf r "snd state" "fst mid" "snd mid"]
    by simp
  from Cons.IH [OF this rest] show ?case .
qed

lemma returned_tree_siblings:
  assumes "treemapData hex len title lf vf gf records = Inr tree"
  shows "\<exists>cs. node_children tree = Some cs \<and> distinct (map node_id cs)
           \<and> (\<forall>c \<in> set cs. case node_children c of
                 Some ls \<Rightarrow> distinct (map node_id ls)
                            \<and> (\<forall>n \<in> set ls. \<exists>x. node_value n = Some (Num x) \<and> 0 \<le> x)
               | None \<Rightarrow> True)"
  using assms
proof (cases rule: treemapData_cases)
  case empty
  then show ?thesis by simp
next
  case (flat l v)
  have "distinct (map fst (fold (addRecord l v) records []))"
    by (rule distinct_fold_addRecord) simp
  then have "distinct (map node_id (map leafNode (entries (fold (addRecord l v) records []))))"
    by (simp only: node_id_leafNode keys_entries distinct_propertyOrder)
  with flat show ?thesis by (auto simp: leafNode_def simp del: map_map)
next
  case (grouped l v g groups R)
  have "wellFormedGroups (fst (([] :: (string \<times> items) list), freshRealm))"
    by (simp add: wellFormedGroups_def)
  from wellFormed_forEachGrouped [OF this grouped(5)]
  have dk: "distinct (map fst groups)"
    and di: "\<And>k its. (k, its) \<in> set groups \<Longrightarrow> distinct (map fst its)"
    and nn: "\<And>k its l d. (k, its) \<in> set groups \<Longrightarrow> (l, d) \<in> set its \<Longrightarrow> 0 \<le> itemValue d"
    by (fastforce simp: wellFormedGroups_def list_all_iff)+
  have "distinct (map node_id (map (groupNode R) (entries groups)))"
    using dk by (simp only: node_id_groupNode keys_entries distinct_propertyOrder)
  moreover have "case node_children c of
                   Some ls \<Rightarrow> distinct (map node_id ls)
                              \<and> (\<forall>n \<in> set ls. \<exists>x. node_value n = Some (Num x) \<and> 0 \<le> x)
                 | None \<Rightarrow> True"
    if "c \<in> set (map (groupNode R) (entries groups))" for c
  proof -
    from that obtain k its where kv: "(k, its) \<in> set groups" and c: "c = groupNode R (k, its)"
      by (auto simp: set_entries)
    have "distinct (map node_id (map itemNode (entries its)))"
      using di [OF kv] by (simp only: node_id_itemNode keys_entries distinct_propertyOrder)
    moreover have "\<exists>x. node_value n = Some (Num x) \<and> 0 \<le> x"
      if "n \<in> set (map itemNode (entries its))" for n
      using that nn [OF kv] by (auto simp: set_entries itemNode_def)
    ultimately show ?thesis by (simp add: c groupNode_def Let_def del: map_map)
  qed
  ultimately show ?thesis using grouped by (auto simp del: map_map)
qed

subsection \<open>Defaults and normal return\<close>

text \<open>
  A label that renders as the empty string becomes \<open>Unnamed\<close>, a value cell that holds no
  number contributes 0, a number contributes itself clamped at zero, and a missing group
  cell gives the group \<open>Ungrouped\<close>.
\<close>

lemma malformed_cells_default:
  "(getCellValueAsString r lf = [] \<longrightarrow> recordLabel lf r = ''Unnamed'')
   \<and> ((\<forall>x. getCellValue r vf \<noteq> CNum x) \<longrightarrow> max (recordValue vf r) 0 = 0)
   \<and> (getCellValue r vf = CNum x \<longrightarrow> max (recordValue vf r) 0 = max x 0)
   \<and> (getCellValue r gf = CNull \<longrightarrow> recordGroup hex gf r = ''Ungrouped'')"
  by (auto simp: recordLabel_def recordValue_def recordGroup_def groupOf_def split: cell.splits)

text \<open>
  Without a group field the aggregator always returns a tree. With a group field it
  returns a tree whenever no group name is a property name of \<open>Object.prototype\<close>.
\<close>

lemma flat_returns:
  "\<exists>tree. treemapData hex len title labelField valueField None records = Inr tree"
  by (simp add: treemapData_def split: option.splits)

lemma quiet_freshRealm: "quiet freshRealm"
  by (simp add: quiet_def freshRealm_def)

lemma quiet_lookup:
  assumes "quiet R"
  shows "map_of (objectPrototype R) k = None \<or> map_of (objectPrototype R) k = Some (AddedPrim PNaN)"
proof (cases "map_of (objectPrototype R) k")
  case None
  then show ?thesis by simp
next
  case (Some a)
  then have "(k, a) \<in> set (objectPrototype R)" by (rule map_of_SomeD)
  with assms have "a = AddedPrim PNaN" by (auto simp: quiet_def list_all_iff)
  with Some show ?thesis by simp
qed

lemma quiet_propsOf:
  assumes "quiet R"
  shows "list_all (\<lambda>kp. snd kp = FPrim PNaN) (propsOf R f)"
proof (cases "map_of (functionProps R) f")
  case None
  then show ?thesis by (simp add: propsOf_def)
next
  case (Some ps)
  then have "(f, ps) \<in> set (functionProps R)" by (rule map_of_SomeD)
  with assms have "list_all (\<lambda>kp. snd kp = FPrim PNaN) ps"
    by (auto simp: quiet_def list_all_iff)
  with Some show ?thesis by (simp add: propsOf_def)
qed

lemma quiet_function_lookup:
  assumes "quiet R"
  shows "map_of (propsOf R f) k = None \<or> map_of (propsOf R f) k = Some (FPrim PNaN)"
proof (cases "map_of (propsOf R f) k")
  case None
  then show ?thesis by simp
next
  case (Some p)
  then have "(k, p) \<in> set (propsOf R f)" by (rule map_of_SomeD)
  with quiet_propsOf [OF assms, of f] have "p = FPrim PNaN" by (auto simp: list_all_iff)
  with Some show ?thesis by simp
qed

lemma quiet_groupOf:
  assumes "quiet R"
  shows "groupOf hex R v = groupOf hex freshRealm v"
proof -
  have "\<not> inheritsEntry R k" for k
    using quiet_lookup [OF assms, of k] by (auto simp: inheritsEntry_def)
  moreover have "\<not> inheritsEntry freshRealm k" for k
    by (simp add: inheritsEntry_def freshRealm_def)
  ultimately show ?thesis by (cases v) (simp_all add: groupOf_def)
qed

text \<open>
  As long as no record has had a group name that is a property name of
  \<open>Object.prototype\<close>, the group name and the group colour of a record are: the name and
  the resolved colour of a group cell that is an object with a name (no colour when it
  has none or an empty one), the string itself and no colour for a group cell that is a
  string, and \<open>Ungrouped\<close> and no colour for every other group cell.
\<close>

lemma group_name_of_cell:
  assumes "quiet R"
  shows "groupOf hex R (CObj (Some n) c)
           = (n, case c of Some col \<Rightarrow> if col \<noteq> [] then hex (ColorName col) else None
                 | None \<Rightarrow> None)"
    and "groupOf hex R (CStr s) = (s, None)"
    and "groupOf hex R CNull = (''Ungrouped'', None)"
    and "groupOf hex R (CNum x) = (''Ungrouped'', None)"
    and "groupOf hex R (CBool b) = (''Ungrouped'', None)"
    and "groupOf hex R (CObj None c) = (''Ungrouped'', None)"
proof -
  have "\<not> inheritsEntry freshRealm k" for k
    by (simp add: inheritsEntry_def freshRealm_def)
  then show "groupOf hex R (CObj (Some n) c)
           = (n, case c of Some col \<Rightarrow> if col \<noteq> [] then hex (ColorName col) else None
                 | None \<Rightarrow> None)"
    and "groupOf hex R (CStr s) = (s, None)"
    and "groupOf hex R CNull = (''Ungrouped'', None)"
    and "groupOf hex R (CNum x) = (''Ungrouped'', None)"
    and "groupOf hex R (CBool b) = (''Ungrouped'', None)"
    and "groupOf hex R (CObj None c) = (''Ungrouped'', None)"
    unfolding quiet_groupOf [OF assms]
    by (simp_all add: groupOf_def split: option.splits)
qed

lemma quiet_bumpPrototype:
  assumes "quiet R"
  shows "quiet (bumpPrototype R m)"
proof -
  have "plusValue (valueOfPrototype R) m = PNaN"
    using quiet_lookup [OF assms, of "''value''"] by (auto simp: valueOfPrototype_def)
  with assms show ?thesis
    by (simp add: bumpPrototype_def quiet_def list_all_putOwn)
qed

lemma quiet_bumpFunction:
  assumes "quiet R"
  shows "quiet (bumpFunction R f m)"
proof -
  have "valueOfPrototype R = OUndefined \<or> valueOfPrototype R = OPrim PNaN"
    using quiet_lookup [OF assms, of "''value''"] by (auto simp: valueOfPrototype_def)
  moreover from assms have "functionPrototypeValue R = None" by (simp add: quiet_def)
  ultimately have "plusValue (valueOfFunction R f) m = PNaN"
    using quiet_function_lookup [OF assms, of f "''value''"]
    by (auto simp: valueOfFunction_def valueOfFunctionPrototype_def)
  moreover have "list_all (\<lambda>kp. snd kp = FPrim PNaN) (propsOf R f)"
    using assms by (rule quiet_propsOf)
  ultimately show ?thesis using assms
    by (simp add: bumpFunction_def setFunctionProp_def quiet_def list_all_putOwn)
qed

lemma quiet_addItem:
  assumes "quiet R"
  shows "\<exists>its' R'. addItem R its l c v = Inr (its', R') \<and> quiet R'"
proof (cases "map_of its l")
  case (Some d)
  with assms show ?thesis by (simp add: addItem_def)
next
  case None
  from quiet_lookup [OF assms, of l]
  have "viaPrototype R l = FoundNothing \<or> viaPrototype R l = FoundPrototype
        \<or> viaPrototype R l = FoundFunction l"
    by (auto simp: viaPrototype_def)
  with None assms show ?thesis
    by (auto simp: addItem_def quiet_bumpPrototype quiet_bumpFunction)
qed

lemma quiet_addGrouped:
  assumes "quiet R" and "\<not> inheritedName (recordGroup hex gf r)"
  shows "\<exists>groups' R'. addGrouped hex len lf vf gf r (groups, R) = Inr (groups', R') \<and> quiet R'"
proof -
  obtain g c where gc: "groupOf hex R (getCellValue r gf) = (g, c)"
    by (cases "groupOf hex R (getCellValue r gf)")
  with assms have ok: "g \<noteq> ''__proto__''" "g \<notin> set prototypeFunctions"
    by (simp_all add: recordGroup_def quiet_groupOf inheritedName_def)
  have item: "\<exists>its' R'. addItem R its (recordLabel lf r) c (recordValue vf r) = Inr (its', R')
                 \<and> quiet R'" for its
    using assms(1) by (rule quiet_addItem)
  show ?thesis
  proof (cases "map_of groups g")
    case (Some its)
    from item [of its] Some gc show ?thesis by (auto simp: addGrouped_def Let_def)
  next
    case None
    from item [of "[]"] None gc ok quiet_lookup [OF assms(1), of g] show ?thesis
      by (auto simp: addGrouped_def Let_def)
  qed
qed

lemma forEachGrouped_returns:
  assumes "\<forall>r \<in> set rs. \<not> inheritedName (recordGroup hex gf r)" and "quiet R"
  shows "\<exists>groups' R'. forEachGrouped (addGrouped hex len lf vf gf) rs (groups, R)
                          = Inr (groups', R') \<and> quiet R'"
  using assms
proof (induction rs arbitrary: groups R)
  case Nil
  then show ?case by simp
next
  case (Cons r rs)
  then have "\<not> inheritedName (recordGroup hex gf r)" by simp
  from quiet_addGrouped [OF Cons.prems(2) this, of len lf vf groups]
  obtain mid R1 where step: "addGrouped hex len lf vf gf r (groups, R) = Inr (mid, R1)"
    and q: "quiet R1"
    by blast
  from Cons.prems(1) have "\<forall>r \<in> set rs. \<not> inheritedName (recordGroup hex gf r)" by simp
  from Cons.IH [OF this q, of mid] step show ?case by simp
qed

lemma grouped_returns:
  assumes "\<forall>r \<in> set records. \<not> inheritedName (recordGroup hex gf r)"
  shows "\<exists>tree. treemapData hex len title labelField valueField (Some gf) records = Inr tree"
proof (cases "labelField = None \<or> valueField = None \<or> records = []")
  case True
  then show ?thesis by (auto simp: treemapData_def split: option.splits)
next
  case False
  then obtain lf vf where fields: "labelField = Some lf" "valueField = Some vf" "records \<noteq> []"
    by auto
  from forEachGrouped_returns [OF assms quiet_freshRealm] obtain groups' R' where
    "forEachGrouped (addGrouped hex len lf vf gf) records ([], freshRealm) = Inr (groups', R')"
    by blast
  with fields show ?thesis by (simp add: treemapData_def)
qed

text \<open>
  When no group name is a property name of \<open>Object.prototype\<close>, each group node of the
  returned tree has the colour of its first child, and no colour when it has no child.
\<close>

lemma group_color_rule:
  assumes "\<forall>r \<in> set records. \<not> inheritedName (recordGroup hex gf r)"
    and "treemapData hex len title labelField valueField (Some gf) records = Inr tree"
  shows "colorsFromFirstChild tree"
  using assms(2)
proof (cases rule: treemapData_cases)
  case empty
  then show ?thesis by (simp add: colorsFromFirstChild_def)
next
  case (flat l v)
  then show ?thesis by simp
next
  case (grouped l v g groups R)
  from forEachGrouped_returns [OF assms(1) quiet_freshRealm, of len l v "[]"] grouped
  have "quiet R" by auto
  then have "\<not> inheritsEntry R ''0''"
    using quiet_lookup [of R "''0''"] by (auto simp: inheritsEntry_def)
  then show ?thesis
    using grouped groupNode_color by (simp add: colorsFromFirstChild_def list_all_iff)
qed

subsection \<open>The examples of the specification\<close>

lemma spec_example_flat:
  "treemapData (\<lambda>c. None) (\<lambda>x. 1) ''Sales'' (Some ''Name'') (Some ''Amount'') None
       [row ''A'' (CNum 10) CNull, row ''A'' (CNum 5) CNull, row ''B'' (CNum (-3)) CNull]
     = Inr (Node ''Sales'' None None (Some
         [Node ''A'' (Some (Num 15)) None None, Node ''B'' (Some (Num 0)) None None]))"
  by (simp add: run_defs)

lemma spec_example_grouped:
  "treemapData (\<lambda>c. None) (\<lambda>x. 1) ''Sales'' (Some ''Name'') (Some ''Amount'') (Some ''Category'')
       [row ''A'' (CNum 10) (CObj (Some ''G1'') None), row ''A'' (CNum 5) (CObj (Some ''G1'') None),
        row ''B'' (CNum (-3)) (CObj (Some ''G2'') None)]
     = Inr (Node ''Sales'' None None (Some
         [Node ''G1'' None None (Some [Node ''A'' (Some (Num 15)) None None]),
          Node ''G2'' None None (Some [Node ''B'' (Some (Num 0)) None None])]))"
  by (simp add: run_defs)

text \<open>
  Once a record has stored an entry on \<open>Object.prototype\<close> under \<open>name\<close>, a group cell
  that is an object without a name gives the group \<open>[object Object]\<close>.
\<close>

lemma nameless_object_after_name_entry:
  "treemapData (\<lambda>c. None) (\<lambda>x. 1) ''Sales'' (Some ''Name'') (Some ''Amount'') (Some ''Category'')
       [row ''name'' (CNum 1) (CStr ''__proto__''), row ''X'' (CNum 2) (CObj None None)]
     = Inr (Node ''Sales'' None None (Some
         [Node ''[object Object]'' None None (Some [Node ''X'' (Some (Num 2)) None None])]))"
  by (simp add: run_defs)

section \<open>The claims\<close>

subsection \<open>Claims that hold\<close>

text \<open>
  C7: when the label field is unset, or the value field is unset, or there are no
  records, the aggregator returns the root titled \<open>title\<close> with an empty list of
  children.
\<close>

theorem empty_input_empty_root:
  assumes "labelField = None \<or> valueField = None \<or> records = []"
  shows "treemapData hex len title labelField valueField groupByField records
           = Inr (Node title None None (Some []))"
  using assms by (auto simp: treemapData_def flatTree_def groupedTree_def split: option.splits)

theorem empty_input_empty_root_witness:
  "treemapData (\<lambda>c. None) (\<lambda>x. 1) ''Company revenue map'' None (Some ''Amount'') (Some ''Category'')
       [row ''A'' (CNum 1) CNull]
     = Inr (Node ''Company revenue map'' None None (Some []))
   \<and> treemapData (\<lambda>c. None) (\<lambda>x. 1) ''Company revenue map'' (Some ''Name'') None None
       [row ''A'' (CNum 1) CNull]
     = Inr (Node ''Company revenue map'' None None (Some []))
   \<and> treemapData (\<lambda>c. None) (\<lambda>x. 1) ''Company revenue map'' (Some ''Name'') (Some ''Amount'') None []
     = Inr (Node ''Company revenue map'' None None (Some []))"
  using empty_input_empty_root [of None "Some ''Amount''" "[row ''A'' (CNum 1) CNull]"]
    empty_input_empty_root [of "Some ''Name''" None "[row ''A'' (CNum 1) CNull]"]
    empty_input_empty_root [of "Some ''Name''" "Some ''Amount''" "[]"]
  by simp

text \<open>
  C5: in every tree the aggregator returns, the root has a list of children and no
  value; without a group field every child of the root is a leaf (a value, no
  children), with a group field every child is a branch (children, no value) whose
  children are leaves. This holds of the tree built from any \<open>aggregated\<close> and from any
  \<open>groups\<close>, whatever the loop has stored there and on the built-in objects.
\<close>

theorem tree_shape:
  "rootShape False (flatTree title aggregated)
   \<and> rootShape True (groupedTree title R groups)
   \<and> (treemapData hex len title labelField valueField groupByField records = Inr tree
        \<longrightarrow> rootShape (groupByField \<noteq> None) tree)"
proof (intro conjI impI)
  show "rootShape False (flatTree title aggregated)"
    by (simp add: rootShape_def flatTree_def list_all_iff isLeaf_leafNode)
  show "rootShape True (groupedTree title R groups)"
    by (simp add: rootShape_def groupedTree_def list_all_iff isBranch_groupNode)
  assume "treemapData hex len title labelField valueField groupByField records = Inr tree"
  then show "rootShape (groupByField \<noteq> None) tree"
  proof (cases rule: treemapData_cases)
    case empty
    then show ?thesis by (simp add: rootShape_def)
  next
    case (flat l v)
    then show ?thesis by (simp add: rootShape_def list_all_iff isLeaf_leafNode)
  next
    case (grouped l v g groups R)
    then show ?thesis by (simp add: rootShape_def list_all_iff isBranch_groupNode)
  qed
qed

theorem tree_shape_witness:
  "treemapData sameHex (\<lambda>x. 1) ''Sales'' (Some ''Name'') (Some ''Amount'') (Some ''Category'')
       [row ''A'' (CNum 10) (CObj (Some ''G1'') None),
        row ''B'' (CNum (-3)) (CObj (Some ''G2'') (Some ''red''))]
     = Inr (Node ''Sales'' None None (Some
         [Node ''G1'' None None (Some [Node ''A'' (Some (Num 10)) None None]),
          Node ''G2'' None (Some (Hex ''red'')) (Some [Node ''B'' (Some (Num 0)) (Some (Hex ''red'')) None])]))
   \<and> rootShape True (Node ''Sales'' None None (Some
         [Node ''G1'' None None (Some [Node ''A'' (Some (Num 10)) None None]),
          Node ''G2'' None (Some (Hex ''red'')) (Some [Node ''B'' (Some (Num 0)) (Some (Hex ''red'')) None])]))"
proof -
  have run:
    "treemapData sameHex (\<lambda>x. 1) ''Sales'' (Some ''Name'') (Some ''Amount'') (Some ''Category'')
       [row ''A'' (CNum 10) (CObj (Some ''G1'') None),
        row ''B'' (CNum (-3)) (CObj (Some ''G2'') (Some ''red''))]
     = Inr (Node ''Sales'' None None (Some
         [Node ''G1'' None None (Some [Node ''A'' (Some (Num 10)) None None]),
          Node ''G2'' None (Some (Hex ''red'')) (Some [Node ''B'' (Some (Num 0)) (Some (Hex ''red'')) None])]))"
    by (simp add: run_defs)
  from tree_shape [where hex = sameHex and len = "\<lambda>x. 1" and title = "''Sales''"
      and labelField = "Some ''Name''" and valueField = "Some ''Amount''"
      and groupByField = "Some ''Category''"] run
  show ?thesis by simp
qed

subsection \<open>The order of the children\<close>

text \<open>
  C3, as the code has it: when no label and no group name is the name of a property of
  \<open>Object.prototype\<close>, the children of the root are the distinct labels (without a
  group field) or the distinct group names (with one), and the children of a group node
  are the distinct labels of the records of that group, each list in the order of
  \<open>Object.entries\<close>: the names that are array indices first, in ascending numeric order,
  then the other names in the order in which they are first encountered.
\<close>

theorem children_in_property_order:
  assumes "\<forall>r \<in> set records. \<not> inheritedName (recordLabel lf r)"
  shows "(\<exists>cs. treemapData hex len title (Some lf) (Some vf) None records
                 = Inr (Node title None None (Some cs))
              \<and> map node_id cs = propertyOrder (firstSeen (map (recordLabel lf) records)))
       \<and> ((\<forall>r \<in> set records. \<not> inheritedName (recordGroup hex gf r)) \<longrightarrow>
            (\<exists>gs. treemapData hex len title (Some lf) (Some vf) (Some gf) records
                     = Inr (Node title None None (Some gs))
                 \<and> map node_id gs = propertyOrder (firstSeen (map (recordGroup hex gf) records))
                 \<and> (\<forall>g \<in> set gs. \<exists>ls. node_children g = Some ls
                       \<and> map node_id ls =
                           propertyOrder (firstSeen (map (recordLabel lf)
                             (filter (\<lambda>r. recordGroup hex gf r = node_id g) records))))))"
proof (intro conjI impI)
  let ?agg = "map (\<lambda>l. (l, Num (labelTotal lf vf records l)))
                (firstSeen (map (recordLabel lf) records))"
  have "map fst ?agg = firstSeen (map (recordLabel lf) records)"
    by (simp add: comp_def)
  then have "map node_id (map leafNode (entries ?agg))
               = propertyOrder (firstSeen (map (recordLabel lf) records))"
    by (simp only: node_id_leafNode keys_entries)
  with flat_tree [OF assms, where hex = hex and len = len and title = title and vf = vf]
  show "\<exists>cs. treemapData hex len title (Some lf) (Some vf) None records
                 = Inr (Node title None None (Some cs))
              \<and> map node_id cs = propertyOrder (firstSeen (map (recordLabel lf) records))"
    by blast
next
  assume okg: "\<forall>r \<in> set records. \<not> inheritedName (recordGroup hex gf r)"
  let ?gs = "map (groupNode freshRealm) (entries (expectedGroups hex lf vf gf records))"
  have tree: "treemapData hex len title (Some lf) (Some vf) (Some gf) records
                = Inr (Node title None None (Some ?gs))"
    using assms okg by (rule grouped_tree)
  have ids: "map node_id ?gs = propertyOrder (firstSeen (map (recordGroup hex gf) records))"
    by (simp only: node_id_groupNode keys_entries keys_expectedGroups)
  have leaves: "\<exists>ls. node_children g = Some ls
                  \<and> map node_id ls =
                      propertyOrder (firstSeen (map (recordLabel lf)
                        (filter (\<lambda>r. recordGroup hex gf r = node_id g) records)))"
    if "g \<in> set ?gs" for g
  proof -
    from that obtain k where g: "g = groupNode freshRealm (k, expectedItems hex lf vf gf records k)"
      by (auto simp: set_entries expectedGroups_def)
    have "map node_id (map itemNode (entries (expectedItems hex lf vf gf records k)))
            = propertyOrder (firstSeen (map (recordLabel lf)
                (filter (\<lambda>r. recordGroup hex gf r = k) records)))"
      by (simp only: node_id_itemNode keys_entries keys_expectedItems)
    then show ?thesis
      by (simp add: g groupNode_def Let_def del: map_map)
  qed
  from tree ids leaves
  show "\<exists>gs. treemapData hex len title (Some lf) (Some vf) (Some gf) records
                     = Inr (Node title None None (Some gs))
                 \<and> map node_id gs = propertyOrder (firstSeen (map (recordGroup hex gf) records))
                 \<and> (\<forall>g \<in> set gs. \<exists>ls. node_children g = Some ls
                       \<and> map node_id ls =
                           propertyOrder (firstSeen (map (recordLabel lf)
                             (filter (\<lambda>r. recordGroup hex gf r = node_id g) records))))"
    by blast
qed

theorem children_in_property_order_witness:
  "list_all (\<lambda>r. \<not> inheritedName (recordLabel ''Name'' r))
     [row ''2024'' (CNum 7) (CStr ''East''), row ''Misc'' (CNum 1) (CStr ''East''),
      row ''2023'' (CNum 5) (CStr ''West''), row ''2023'' (CNum 2) (CStr ''East'')]
   \<and> list_all (\<lambda>r. \<not> inheritedName (recordGroup (\<lambda>c. None) ''Category'' r))
     [row ''2024'' (CNum 7) (CStr ''East''), row ''Misc'' (CNum 1) (CStr ''East''),
      row ''2023'' (CNum 5) (CStr ''West''), row ''2023'' (CNum 2) (CStr ''East'')]
   \<and> treemapData (\<lambda>c. None) (\<lambda>x. 1) ''Sales'' (Some ''Name'') (Some ''Amount'') None
        [row ''2024'' (CNum 7) (CStr ''East''), row ''Misc'' (CNum 1) (CStr ''East''),
         row ''2023'' (CNum 5) (CStr ''West''), row ''2023'' (CNum 2) (CStr ''East'')]
      = Inr (Node ''Sales'' None None (Some
          [Node ''2023'' (Some (Num 7)) None None, Node ''2024'' (Some (Num 7)) None None,
           Node ''Misc'' (Some (Num 1)) None None]))
   \<and> propertyOrder (firstSeen (map (recordLabel ''Name'')
        [row ''2024'' (CNum 7) (CStr ''East''), row ''Misc'' (CNum 1) (CStr ''East''),
         row ''2023'' (CNum 5) (CStr ''West''), row ''2023'' (CNum 2) (CStr ''East'')]))
      = [''2023'', ''2024'', ''Misc'']
   \<and> (\<exists>gs. treemapData (\<lambda>c. None) (\<lambda>x. 1) ''Sales'' (Some ''Name'') (Some ''Amount'') (Some ''Category'')
          [row ''2024'' (CNum 7) (CStr ''East''), row ''Misc'' (CNum 1) (CStr ''East''),
           row ''2023'' (CNum 5) (CStr ''West''), row ''2023'' (CNum 2) (CStr ''East'')]
        = Inr (Node ''Sales'' None None (Some gs))
        \<and> map node_id gs = [''East'', ''West''])"
proof -
  let ?rs = "[row ''2024'' (CNum 7) (CStr ''East''), row ''Misc'' (CNum 1) (CStr ''East''),
              row ''2023'' (CNum 5) (CStr ''West''), row ''2023'' (CNum 2) (CStr ''East'')]"
  have labels: "\<forall>r \<in> set ?rs. \<not> inheritedName (recordLabel ''Name'' r)"
    by (simp add: run_defs)
  have groups: "\<forall>r \<in> set ?rs. \<not> inheritedName (recordGroup (\<lambda>c. None) ''Category'' r)"
    by (simp add: run_defs)
  have order: "propertyOrder (firstSeen (map (recordLabel ''Name'') ?rs))
                 = [''2023'', ''2024'', ''Misc'']"
    by (simp add: run_defs)
  have gorder: "propertyOrder (firstSeen (map (recordGroup (\<lambda>c. None) ''Category'') ?rs))
                 = [''East'', ''West'']"
    by (simp add: run_defs)
  have flat: "treemapData (\<lambda>c. None) (\<lambda>x. 1) ''Sales'' (Some ''Name'') (Some ''Amount'') None ?rs
      = Inr (Node ''Sales'' None None (Some
          [Node ''2023'' (Some (Num 7)) None None, Node ''2024'' (Some (Num 7)) None None,
           Node ''Misc'' (Some (Num 1)) None None]))"
    by (simp add: run_defs)
  from children_in_property_order [OF labels, where hex = "\<lambda>c. None" and len = "\<lambda>x. 1"
      and title = "''Sales''" and vf = "''Amount''" and gf = "''Category''"]
    groups gorder
  have "\<exists>gs. treemapData (\<lambda>c. None) (\<lambda>x. 1) ''Sales'' (Some ''Name'') (Some ''Amount'') (Some ''Category'') ?rs
             = Inr (Node ''Sales'' None None (Some gs))
           \<and> map node_id gs = [''East'', ''West'']"
    by metis
  moreover from labels have "list_all (\<lambda>r. \<not> inheritedName (recordLabel ''Name'' r)) ?rs"
    by (simp only: list_all_iff)
  moreover from groups
  have "list_all (\<lambda>r. \<not> inheritedName (recordGroup (\<lambda>c. None) ''Category'' r)) ?rs"
    by (simp only: list_all_iff)
  ultimately show ?thesis using order flat by blast
qed

text \<open>
  C3 as stated fails: the labels \<open>2024\<close> and \<open>2023\<close> are encountered in this order, and
  the children of the root are \<open>2023\<close>, \<open>2024\<close>.
\<close>

theorem first_seen_order_counterexample:
  "treemapData (\<lambda>c. None) (\<lambda>x. 1) ''Sales'' (Some ''Name'') (Some ''Amount'') None
       [row ''2024'' (CNum 7) CNull, row ''2023'' (CNum 5) CNull]
     = Inr (Node ''Sales'' None None (Some
         [Node ''2023'' (Some (Num 5)) None None, Node ''2024'' (Some (Num 7)) None None]))
   \<and> map node_id [Node ''2023'' (Some (Num 5)) None None, Node ''2024'' (Some (Num 7)) None None]
       \<noteq> firstSeen (map (recordLabel ''Name'')
             [row ''2024'' (CNum 7) CNull, row ''2023'' (CNum 5) CNull])"
  by (simp add: run_defs)

subsection \<open>Labels and group names that are properties of \<open>Object.prototype\<close>\<close>

text \<open>
  The objects \<open>aggregated\<close>, \<open>groups\<close> and \<open>groups[g]\<close> are object literals, so a label or
  a group name that is a property name of \<open>Object.prototype\<close> is found there by the
  checks of lines 77, 81 and 113, and the record is not stored as the other records
  are. With a group field, lines 82 and 84 then write to \<open>Object.prototype\<close> or to the
  built-in function that was found, where the checks of later records and the read of
  line 98 find what was written. The following runs show what the aggregator returns
  then.
\<close>

text \<open>
  C1 at one record labelled \<open>__proto__\<close> with the value 5, without a group field: the
  values clamped at zero sum to 5, and the root has no leaf at all.
\<close>

theorem proto_label_record_lost:
  "treemapData (\<lambda>c. None) (\<lambda>x. 1) ''Sales'' (Some ''Name'') (Some ''Amount'') None
       [row ''__proto__'' (CNum 5) CNull]
     = Inr (Node ''Sales'' None None (Some []))
   \<and> (\<Sum>r \<leftarrow> [row ''__proto__'' (CNum 5) CNull]. max (recordValue ''Amount'' r) 0) = 5"
  by (simp add: run_defs)

text \<open>
  C2 at two records labelled \<open>constructor\<close> with the values 10 and 5, without a group
  field: there is one leaf \<open>constructor\<close>, and its value is not the number 15 but the
  text of the built-in function followed by \<open>10\<close> and \<open>5\<close>.
\<close>

theorem inherited_label_values_concatenated:
  "treemapData (\<lambda>c. None) (\<lambda>x. 1) ''Sales'' (Some ''Name'') (Some ''Amount'') None
       [row ''constructor'' (CNum 10) CNull, row ''constructor'' (CNum 5) CNull]
     = Inr (Node ''Sales'' None None (Some
         [Node ''constructor'' (Some (Str [FnSource ''constructor'', Dec 10, Dec 5])) None None]))"
  by (simp add: run_defs)

text \<open>
  C4 at one record labelled \<open>toString\<close> with the value 5, without a group field: the
  value of the leaf is a text, not a number that is at least 0.
\<close>

theorem inherited_label_leaf_not_a_number:
  "treemapData (\<lambda>c. None) (\<lambda>x. 1) ''Sales'' (Some ''Name'') (Some ''Amount'') None
       [row ''toString'' (CNum 5) CNull]
     = Inr (Node ''Sales'' None None (Some
         [Node ''toString'' (Some (Str [FnSource ''toString'', Dec 5])) None None]))
   \<and> \<not> nonNegativeNumber (Str [FnSource ''toString'', Dec 5])"
  by (simp add: run_defs)

text \<open>
  C9 at one record labelled \<open>name\<close> whose value cell is missing and whose group cell is
  the string \<open>constructor\<close>: \<open>groups["constructor"]\<close> is the built-in function \<open>Object\<close>,
  \<open>groups["constructor"]["name"]\<close> is the string \<open>Object\<close>, and line 84 assigns to a
  property of that string, which throws \<open>TypeError\<close>.
\<close>

theorem builtin_group_type_error:
  "treemapData (\<lambda>c. None) (\<lambda>x. 1) ''Sales'' (Some ''Name'') (Some ''Amount'') (Some ''Category'')
       [row ''name'' CNull (CStr ''constructor'')]
     = Inl TypeError"
  by (simp add: run_defs)

text \<open>
  C10 at one record labelled \<open>toString\<close> in the group \<open>G\<close>: line 78 creates
  \<open>groups["G"]\<close>, line 81 finds the inherited \<open>toString\<close> and creates no property, and
  the group node \<open>G\<close> has an empty list of children.
\<close>

theorem inherited_label_empty_group:
  "treemapData (\<lambda>c. None) (\<lambda>x. 1) ''Sales'' (Some ''Name'') (Some ''Amount'') (Some ''Category'')
       [row ''toString'' (CNum 5) (CStr ''G'')]
     = Inr (Node ''Sales'' None None (Some [Node ''G'' None None (Some [])]))"
  by (simp add: run_defs)

text \<open>
  C6 at two records: the first is labelled \<open>Ungrouped\<close> and its group cell is the string
  \<open>__proto__\<close>, the second is labelled \<open>X\<close> and its group cell is missing. For the first,
  \<open>groups["__proto__"]\<close> is \<open>Object.prototype\<close>, and line 82 stores an entry on it under
  \<open>Ungrouped\<close>. The group name of the second is \<open>Ungrouped\<close>; line 77 finds that entry as
  \<open>groups["Ungrouped"]\<close> and creates no group, so the record is placed under no group:
  the root has no children.
\<close>

theorem missing_group_cell_not_placed:
  "treemapData (\<lambda>c. None) (\<lambda>x. 1) ''Sales'' (Some ''Name'') (Some ''Amount'') (Some ''Category'')
       [row ''Ungrouped'' (CNum 1) (CStr ''__proto__''), row ''X'' (CNum 2) CNull]
     = Inr (Node ''Sales'' None None (Some []))
   \<and> recordGroup (\<lambda>c. None) ''Category'' (row ''X'' (CNum 2) CNull) = ''Ungrouped''"
  by (simp add: run_defs)


end
